theory Spec2Isabelle
  imports Complex_Main
begin

section \<open>Tensors, errors and the parameter heap\<close>

text \<open>
  The model follows \<open>src/model.py\<close>. Tensors hold real numbers (the arithmetic of the
  tensor library is idealised to exact reals), carry their shape explicitly, as a torch
  tensor does, and every exception the library or Python raises is a value \<open>Inl e\<close>.
  Modules are in eval mode: \<open>nn.Dropout\<close> returns its input. Since the library rounds,
  a theorem about values either says which values reach which stage, or is stated at an
  input where the rounded computation agrees with it.
\<close>

datatype error = ShapeError | IndexError | ZeroDivisionError | AttributeError | EmptyCatError | SampleError

definition thenR :: "error + 'a \<Rightarrow> ('a \<Rightarrow> error + 'b) \<Rightarrow> error + 'b" where
  "thenR m f = (case m of Inl e \<Rightarrow> Inl e | Inr y \<Rightarrow> f y)"

definition returns :: "error + 'a \<Rightarrow> bool" where
  "returns m = (case m of Inl e \<Rightarrow> False | Inr y \<Rightarrow> True)"

record tensor2 =
  mR :: nat
  mC :: nat
  mvals :: "real list list"

record tensor3 =
  tB :: nat
  tN :: nat
  tD :: nat
  vals :: "real list list list"

definition tabulate2 :: "nat \<Rightarrow> nat \<Rightarrow> (nat \<Rightarrow> nat \<Rightarrow> real) \<Rightarrow> tensor2" where
  "tabulate2 R C f = \<lparr>mR = R, mC = C, mvals = map (\<lambda>i. map (\<lambda>j. f i j) [0..<C]) [0..<R]\<rparr>"

definition tabulate3 :: "nat \<Rightarrow> nat \<Rightarrow> nat \<Rightarrow> (nat \<Rightarrow> nat \<Rightarrow> nat \<Rightarrow> real) \<Rightarrow> tensor3" where
  "tabulate3 B N D f =
     \<lparr>tB = B, tN = N, tD = D,
      vals = map (\<lambda>b. map (\<lambda>i. map (\<lambda>k. f b i k) [0..<D]) [0..<N]) [0..<B]\<rparr>"

definition at2 :: "tensor2 \<Rightarrow> nat \<Rightarrow> nat \<Rightarrow> real" where
  "at2 t i j = mvals t ! i ! j"

definition at3 :: "tensor3 \<Rightarrow> nat \<Rightarrow> nat \<Rightarrow> nat \<Rightarrow> real" where
  "at3 t b i k = vals t ! b ! i ! k"

definition shape3 :: "tensor3 \<Rightarrow> nat \<times> nat \<times> nat" where
  "shape3 t = (tB t, tN t, tD t)"

text \<open>The data of a tensor has the shape the tensor says.\<close>

definition wf3 :: "tensor3 \<Rightarrow> bool" where
  "wf3 t = (length (vals t) = tB t \<and>
            list_all (\<lambda>m. length m = tN t \<and> list_all (\<lambda>r. length r = tD t) m) (vals t))"

text \<open>Broadcasting of one axis: equal sizes, or one of them is 1.\<close>

definition bcast_dim :: "nat \<Rightarrow> nat \<Rightarrow> nat option" where
  "bcast_dim a b = (if a = b then Some a else if a = 1 then Some b
                    else if b = 1 then Some a else None)"

definition bidx :: "nat \<Rightarrow> nat \<Rightarrow> nat" where
  "bidx n i = (if n = 1 then 0 else i)"

text \<open>\<open>a + b\<close> on two rank-3 tensors, with broadcasting on every axis.\<close>

definition add3 :: "tensor3 \<Rightarrow> tensor3 \<Rightarrow> error + tensor3" where
  "add3 a c =
     (case (bcast_dim (tB a) (tB c), bcast_dim (tN a) (tN c), bcast_dim (tD a) (tD c)) of
        (Some B, Some N, Some D) \<Rightarrow>
          Inr (tabulate3 B N D (\<lambda>b i k.
                 at3 a (bidx (tB a) b) (bidx (tN a) i) (bidx (tD a) k)
               + at3 c (bidx (tB c) b) (bidx (tN c) i) (bidx (tD c) k)))
      | _ \<Rightarrow> Inl ShapeError)"

text \<open>\<open>t.transpose(-2, -1)\<close>, \<open>torch.matmul\<close> on batches of matrices, \<open>t / c\<close>.\<close>

definition transpose3 :: "tensor3 \<Rightarrow> tensor3" where
  "transpose3 t = tabulate3 (tB t) (tD t) (tN t) (\<lambda>b i j. at3 t b j i)"

definition matmul :: "tensor3 \<Rightarrow> tensor3 \<Rightarrow> error + tensor3" where
  "matmul a c =
     (if tB a = tB c \<and> tD a = tN c
      then Inr (tabulate3 (tB a) (tN a) (tD c) (\<lambda>b i j. \<Sum>k<tD a. at3 a b i k * at3 c b k j))
      else Inl ShapeError)"

definition div_scalar :: "tensor3 \<Rightarrow> real \<Rightarrow> tensor3" where
  "div_scalar t c = tabulate3 (tB t) (tN t) (tD t) (\<lambda>b i k. at3 t b i k / c)"

definition map3 :: "(real \<Rightarrow> real) \<Rightarrow> tensor3 \<Rightarrow> tensor3" where
  "map3 f t = tabulate3 (tB t) (tN t) (tD t) (\<lambda>b i k. f (at3 t b i k))"

text \<open>\<open>nn.functional.softmax(t, dim=-1)\<close>.\<close>

definition softmax :: "tensor3 \<Rightarrow> tensor3" where
  "softmax t = tabulate3 (tB t) (tN t) (tD t)
                 (\<lambda>b i j. exp (at3 t b i j) / (\<Sum>k<tD t. exp (at3 t b i k)))"

text \<open>\<open>nn.Dropout(p)\<close> applied in eval mode.\<close>

definition dropout :: "real \<Rightarrow> tensor3 \<Rightarrow> tensor3" where
  "dropout p t = t"

text \<open>\<open>torch.ones((r, c))\<close>, \<open>torch.triu(t, diagonal=d)\<close>, \<open>t[0:r, 0:c]\<close>.\<close>

definition ones :: "nat \<Rightarrow> nat \<Rightarrow> tensor2" where
  "ones r c = tabulate2 r c (\<lambda>i j. 1)"

definition triu :: "tensor2 \<Rightarrow> int \<Rightarrow> tensor2" where
  "triu t d = tabulate2 (mR t) (mC t) (\<lambda>i j. if d \<le> int j - int i then at2 t i j else 0)"

definition slice2 :: "tensor2 \<Rightarrow> nat \<Rightarrow> nat \<Rightarrow> tensor2" where
  "slice2 t r c = tabulate2 (min r (mR t)) (min c (mC t)) (at2 t)"

text \<open>
  \<open>out.masked_fill_(M == c, v)\<close>: in place on \<open>out\<close>, so the mask has to broadcast to the
  shape of \<open>out\<close>.
\<close>

definition masked_fill_eq :: "tensor3 \<Rightarrow> tensor2 \<Rightarrow> real \<Rightarrow> real \<Rightarrow> error + tensor3" where
  "masked_fill_eq out M c v =
     (if (mR M = tN out \<or> mR M = 1) \<and> (mC M = tD out \<or> mC M = 1)
      then Inr (tabulate3 (tB out) (tN out) (tD out) (\<lambda>b i j.
                  if at2 M (bidx (mR M) i) (bidx (mC M) j) = c then v else at3 out b i j))
      else Inl ShapeError)"

text \<open>
  Parameters live in a heap; a module holds the addresses of its parameters. A vector
  parameter is stored as a matrix of one row. Creating a parameter takes the next free
  address; random initial values come from \<open>rnd\<close>, indexed by the number of the draw.
\<close>

type_synonym heap = "nat \<Rightarrow> real list list"

record pstate =
  heap :: heap
  next_addr :: nat
  draws :: nat

definition new_param :: "real list list \<Rightarrow> pstate \<Rightarrow> nat \<times> pstate" where
  "new_param v s = (next_addr s, s\<lparr>heap := (heap s)(next_addr s := v), next_addr := Suc (next_addr s)\<rparr>)"

definition rand_tensor :: "(nat \<Rightarrow> nat \<Rightarrow> nat \<Rightarrow> real) \<Rightarrow> nat \<Rightarrow> nat \<Rightarrow> pstate \<Rightarrow> real list list \<times> pstate" where
  "rand_tensor rnd r c s = (map (\<lambda>i. map (\<lambda>j. rnd (draws s) i j) [0..<c]) [0..<r], s\<lparr>draws := Suc (draws s)\<rparr>)"

section \<open>nn.Linear\<close>

record linear =
  in_features :: nat
  out_features :: nat
  weight :: nat
  bias :: "nat option"

definition Linear_init :: "(nat \<Rightarrow> nat \<Rightarrow> nat \<Rightarrow> real) \<Rightarrow> nat \<Rightarrow> nat \<Rightarrow> bool \<Rightarrow> pstate \<Rightarrow> linear \<times> pstate" where
  "Linear_init rnd i o_f b s =
     (let (w, s1) = rand_tensor rnd o_f i s;
          (wa, s2) = new_param w s1
      in if b
         then (let (bv, s3) = rand_tensor rnd 1 o_f s2;
                   (ba, s4) = new_param bv s3
               in (\<lparr>in_features = i, out_features = o_f, weight = wa, bias = Some ba\<rparr>, s4))
         else (\<lparr>in_features = i, out_features = o_f, weight = wa, bias = None\<rparr>, s2))"

text \<open>Entry \<open>(b, i, j)\<close> of \<open>x @ W.T + bias\<close>.\<close>

definition Linear_out :: "heap \<Rightarrow> linear \<Rightarrow> tensor3 \<Rightarrow> nat \<Rightarrow> nat \<Rightarrow> nat \<Rightarrow> real" where
  "Linear_out h L x b i j =
     (\<Sum>k<in_features L. at3 x b i k * (h (weight L) ! j ! k))
     + (case bias L of None \<Rightarrow> 0 | Some a \<Rightarrow> h a ! 0 ! j)"

definition Linear_forward :: "heap \<Rightarrow> linear \<Rightarrow> tensor3 \<Rightarrow> error + tensor3" where
  "Linear_forward h L x =
     (if tD x = in_features L
      then Inr (tabulate3 (tB x) (tN x) (out_features L) (Linear_out h L x))
      else Inl ShapeError)"

section \<open>SingleHeadAttention\<close>

record single_head_attention =
  sha_input_dim :: nat
  output_key_query_dim :: nat
  output_value_dim :: nat
  key :: linear
  query :: linear
  value_proj :: linear
  sha_dropout :: real
  causal_mask :: tensor2

text \<open>
  \<open>__init__\<close>: an output dimension that is \<open>None\<close> or 0 is falsy in Python, and then the
  input dimension is taken.
\<close>

definition truthy_or :: "nat option \<Rightarrow> nat \<Rightarrow> nat" where
  "truthy_or d dflt = (case d of None \<Rightarrow> dflt | Some k \<Rightarrow> if k \<noteq> 0 then k else dflt)"

definition SingleHeadAttention_init ::
  "(nat \<Rightarrow> nat \<Rightarrow> nat \<Rightarrow> real) \<Rightarrow> nat \<Rightarrow> nat option \<Rightarrow> nat option \<Rightarrow> real \<Rightarrow> nat \<Rightarrow> pstate
     \<Rightarrow> single_head_attention \<times> pstate" where
  "SingleHeadAttention_init rnd input_dim okq ov p max_len s =
     (let kq = truthy_or okq input_dim;
          v = truthy_or ov input_dim;
          (k, s1) = Linear_init rnd input_dim kq False s;
          (q, s2) = Linear_init rnd input_dim kq False s1;
          (vl, s3) = Linear_init rnd input_dim v False s2;
          cm = triu (ones max_len max_len) 1
      in (\<lparr>sha_input_dim = input_dim, output_key_query_dim = kq, output_value_dim = v,
           key = k, query = q, value_proj = vl, sha_dropout = p, causal_mask = cm\<rparr>, s3))"

text \<open>
  \<open>forward\<close> up to the masked scores, up to the attention weights, and whole.
\<close>

definition SingleHeadAttention_scores :: "heap \<Rightarrow> single_head_attention \<Rightarrow> tensor3 \<Rightarrow> error + tensor3" where
  "SingleHeadAttention_scores h a x =
     thenR (Linear_forward h (query a) x) (\<lambda>Q.
     thenR (Linear_forward h (key a) x) (\<lambda>K.
     thenR (Linear_forward h (value_proj a) x) (\<lambda>V.
     thenR (matmul Q (transpose3 K)) (\<lambda>QK.
       let out = div_scalar QK (sqrt (real (output_key_query_dim a)));
           M = slice2 (causal_mask a) (tN out) (tD out)
       in masked_fill_eq out M 1 (- (10 ^ 10))))))"

definition SingleHeadAttention_weights :: "heap \<Rightarrow> single_head_attention \<Rightarrow> tensor3 \<Rightarrow> error + tensor3" where
  "SingleHeadAttention_weights h a x =
     thenR (SingleHeadAttention_scores h a x) (\<lambda>out.
       Inr (dropout (sha_dropout a) (softmax out)))"

definition SingleHeadAttention_forward :: "heap \<Rightarrow> single_head_attention \<Rightarrow> tensor3 \<Rightarrow> error + tensor3" where
  "SingleHeadAttention_forward h a x =
     thenR (Linear_forward h (query a) x) (\<lambda>Q.
     thenR (Linear_forward h (key a) x) (\<lambda>K.
     thenR (Linear_forward h (value_proj a) x) (\<lambda>V.
     thenR (matmul Q (transpose3 K)) (\<lambda>QK.
       let out = div_scalar QK (sqrt (real (output_key_query_dim a)));
           M = slice2 (causal_mask a) (tN out) (tD out)
       in thenR (masked_fill_eq out M 1 (- (10 ^ 10))) (\<lambda>out.
          let out = dropout (sha_dropout a) (softmax out)
          in matmul out V)))))"

text \<open>
  The stages of \<open>forward\<close> by themselves: entry \<open>(b, i, j)\<close> of the masked score matrix,
  and of the attention weights, for an input the layer accepts.
\<close>

definition score_entry :: "heap \<Rightarrow> single_head_attention \<Rightarrow> tensor3 \<Rightarrow> nat \<Rightarrow> nat \<Rightarrow> nat \<Rightarrow> real" where
  "score_entry h a x b i j =
     (if i < j then - (10 ^ 10)
      else (\<Sum>k<output_key_query_dim a. Linear_out h (query a) x b i k * Linear_out h (key a) x b j k)
             / sqrt (real (output_key_query_dim a)))"

definition attn_weight :: "heap \<Rightarrow> single_head_attention \<Rightarrow> tensor3 \<Rightarrow> nat \<Rightarrow> nat \<Rightarrow> nat \<Rightarrow> real" where
  "attn_weight h a x b i j =
     exp (score_entry h a x b i j) / (\<Sum>k<tN x. exp (score_entry h a x b i k))"

text \<open>What \<open>__init__\<close> establishes between the fields of a head with mask size \<open>L\<close>.\<close>

definition sha_ok :: "single_head_attention \<Rightarrow> nat \<Rightarrow> bool" where
  "sha_ok a L =
     (in_features (query a) = sha_input_dim a \<and> in_features (key a) = sha_input_dim a \<and>
      in_features (value_proj a) = sha_input_dim a \<and>
      out_features (query a) = output_key_query_dim a \<and>
      out_features (key a) = output_key_query_dim a \<and>
      out_features (value_proj a) = output_value_dim a \<and>
      causal_mask a = triu (ones L L) 1)"

section \<open>MultiHeadAttention\<close>

record multi_head_attention =
  mha_input_dim :: nat
  num_heads :: nat
  heads :: "single_head_attention list"
  out :: linear
  mha_dropout :: real

text \<open>The loop \<open>for i in range(self.num_heads): setattr(self, f"head_{i}", ...)\<close>.\<close>

fun heads_init ::
  "(nat \<Rightarrow> nat \<Rightarrow> nat \<Rightarrow> real) \<Rightarrow> nat \<Rightarrow> nat \<Rightarrow> nat \<Rightarrow> pstate \<Rightarrow> single_head_attention list \<times> pstate" where
  "heads_init rnd input_dim head_dim 0 s = ([], s)"
| "heads_init rnd input_dim head_dim (Suc n) s =
     (let (a, s1) = SingleHeadAttention_init rnd input_dim (Some head_dim) (Some head_dim) (1 / 10) 512 s;
          (as, s2) = heads_init rnd input_dim head_dim n s1
      in (a # as, s2))"

text \<open>\<open>int(self.input_dim / num_heads)\<close> raises \<open>ZeroDivisionError\<close> for no heads.\<close>

definition MultiHeadAttention_init ::
  "(nat \<Rightarrow> nat \<Rightarrow> nat \<Rightarrow> real) \<Rightarrow> nat \<Rightarrow> nat \<Rightarrow> real \<Rightarrow> pstate \<Rightarrow> error + multi_head_attention \<times> pstate" where
  "MultiHeadAttention_init rnd input_dim n_heads p s =
     (if n_heads = 0 then Inl ZeroDivisionError
      else (let head_dim = input_dim div n_heads;
                (hs, s1) = heads_init rnd input_dim head_dim n_heads s;
                (o_l, s2) = Linear_init rnd input_dim input_dim True s1
            in Inr (\<lparr>mha_input_dim = input_dim, num_heads = n_heads, heads = hs,
                     out = o_l, mha_dropout = p\<rparr>, s2)))"

fun heads_forward :: "heap \<Rightarrow> single_head_attention list \<Rightarrow> tensor3 \<Rightarrow> error + tensor3 list" where
  "heads_forward h [] x = Inr []"
| "heads_forward h (a # as) x =
     (case SingleHeadAttention_forward h a x of
        Inl e \<Rightarrow> Inl e
      | Inr v \<Rightarrow> (case heads_forward h as x of Inl e \<Rightarrow> Inl e | Inr vs \<Rightarrow> Inr (v # vs)))"

text \<open>\<open>torch.cat(values, dim=-1)\<close>.\<close>

definition cat2 :: "tensor3 \<Rightarrow> tensor3 \<Rightarrow> error + tensor3" where
  "cat2 a c =
     (if tB a = tB c \<and> tN a = tN c
      then Inr (tabulate3 (tB a) (tN a) (tD a + tD c)
                  (\<lambda>b i k. if k < tD a then at3 a b i k else at3 c b i (k - tD a)))
      else Inl ShapeError)"

fun cat_last :: "tensor3 list \<Rightarrow> error + tensor3" where
  "cat_last [] = Inl EmptyCatError"
| "cat_last [t] = Inr t"
| "cat_last (t # ts) = (case cat_last ts of Inl e \<Rightarrow> Inl e | Inr r \<Rightarrow> cat2 t r)"

definition MultiHeadAttention_concat :: "heap \<Rightarrow> multi_head_attention \<Rightarrow> tensor3 \<Rightarrow> error + tensor3" where
  "MultiHeadAttention_concat h m x = thenR (heads_forward h (heads m) x) cat_last"

definition MultiHeadAttention_forward :: "heap \<Rightarrow> multi_head_attention \<Rightarrow> tensor3 \<Rightarrow> error + tensor3" where
  "MultiHeadAttention_forward h m x =
     thenR (heads_forward h (heads m) x) (\<lambda>values.
     thenR (cat_last values) (\<lambda>c.
     thenR (Linear_forward h (out m) c) (\<lambda>r.
       Inr (dropout (mha_dropout m) r))))"

section \<open>FeedForwardLayer\<close>

text \<open>\<open>nn.GELU()\<close> is a function of the tensor library; the layer holds it as \<open>activation\<close>.\<close>

record feed_forward_layer =
  fc1 :: linear
  activation :: "real \<Rightarrow> real"
  fc2 :: linear
  ff_dropout :: real

definition FeedForwardLayer_init ::
  "(nat \<Rightarrow> nat \<Rightarrow> nat \<Rightarrow> real) \<Rightarrow> (real \<Rightarrow> real) \<Rightarrow> nat \<Rightarrow> nat option \<Rightarrow> real \<Rightarrow> pstate
     \<Rightarrow> feed_forward_layer \<times> pstate" where
  "FeedForwardLayer_init rnd gelu input_dim feedforward_dim p s =
     (let fd = (case feedforward_dim of None \<Rightarrow> input_dim * 4 | Some k \<Rightarrow> k);
          (l1, s1) = Linear_init rnd input_dim fd True s;
          (l2, s2) = Linear_init rnd fd input_dim True s1
      in (\<lparr>fc1 = l1, activation = gelu, fc2 = l2, ff_dropout = p\<rparr>, s2))"

definition FeedForwardLayer_forward :: "heap \<Rightarrow> feed_forward_layer \<Rightarrow> tensor3 \<Rightarrow> error + tensor3" where
  "FeedForwardLayer_forward h f x =
     thenR (Linear_forward h (fc1 f) x) (\<lambda>r.
     let r = map3 (activation f) r in
     thenR (Linear_forward h (fc2 f) r) (\<lambda>r.
       Inr (dropout (ff_dropout f) r)))"

section \<open>LayerNorm\<close>

record layer_norm =
  normalized_shape :: nat
  eps :: real
  elementwise_affine :: bool
  gamma :: "nat option"
  beta :: "nat option"

definition LayerNorm_init :: "nat \<Rightarrow> real \<Rightarrow> bool \<Rightarrow> pstate \<Rightarrow> layer_norm \<times> pstate" where
  "LayerNorm_init n e aff s =
     (if aff
      then (let (g, s1) = new_param [replicate n 1] s;
                (bt, s2) = new_param [replicate n 0] s1
            in (\<lparr>normalized_shape = n, eps = e, elementwise_affine = aff,
                 gamma = Some g, beta = Some bt\<rparr>, s2))
      else (\<lparr>normalized_shape = n, eps = e, elementwise_affine = aff,
             gamma = None, beta = None\<rparr>, s))"

text \<open>\<open>torch.mean(input, dim=-1)\<close> and \<open>torch.var(input, dim=-1, correction=0)\<close>.\<close>

definition row_mean :: "tensor3 \<Rightarrow> nat \<Rightarrow> nat \<Rightarrow> real" where
  "row_mean x b i = (\<Sum>k<tD x. at3 x b i k) / real (tD x)"

definition row_var :: "tensor3 \<Rightarrow> nat \<Rightarrow> nat \<Rightarrow> real" where
  "row_var x b i = (\<Sum>k<tD x. (at3 x b i k - row_mean x b i) ^ 2) / real (tD x)"

text \<open>
  \<open>forward\<close> reads \<open>self.gamma\<close> and \<open>self.beta\<close>, which exist only with
  \<open>elementwise_affine\<close>; they broadcast against the feature axis of the input.
\<close>

definition LayerNorm_forward :: "heap \<Rightarrow> layer_norm \<Rightarrow> tensor3 \<Rightarrow> error + tensor3" where
  "LayerNorm_forward h nl x =
     (case (gamma nl, beta nl) of
        (Some g, Some bt) \<Rightarrow>
          (case bcast_dim (tD x) (normalized_shape nl) of
             Some D \<Rightarrow>
               Inr (tabulate3 (tB x) (tN x) D (\<lambda>b i k.
                      (at3 x b i (bidx (tD x) k) - row_mean x b i)
                        / sqrt (row_var x b i + eps nl)
                        * (h g ! 0 ! bidx (normalized_shape nl) k)
                      + h bt ! 0 ! bidx (normalized_shape nl) k))
           | None \<Rightarrow> Inl ShapeError)
      | _ \<Rightarrow> Inl AttributeError)"

section \<open>TransformerLayer\<close>

record transformer_layer =
  norm1 :: layer_norm
  attention :: multi_head_attention
  norm2 :: layer_norm
  feedforward :: feed_forward_layer

text \<open>\<open>__init__\<close> takes \<open>feedforward_dim\<close> and does not pass it on.\<close>

definition TransformerLayer_init ::
  "(nat \<Rightarrow> nat \<Rightarrow> nat \<Rightarrow> real) \<Rightarrow> (real \<Rightarrow> real) \<Rightarrow> nat \<Rightarrow> nat \<Rightarrow> nat option \<Rightarrow> pstate
     \<Rightarrow> error + transformer_layer \<times> pstate" where
  "TransformerLayer_init rnd gelu input_dim n_heads feedforward_dim s =
     (let (n1, s1) = LayerNorm_init input_dim (1 / 10 ^ 5) True s
      in case MultiHeadAttention_init rnd input_dim n_heads (1 / 10) s1 of
           Inl e \<Rightarrow> Inl e
         | Inr (att, s2) \<Rightarrow>
             (let (n2, s3) = LayerNorm_init input_dim (1 / 10 ^ 5) True s2;
                  (ff, s4) = FeedForwardLayer_init rnd gelu input_dim None (1 / 10) s3
              in Inr (\<lparr>norm1 = n1, attention = att, norm2 = n2, feedforward = ff\<rparr>, s4)))"

definition TransformerLayer_forward :: "heap \<Rightarrow> transformer_layer \<Rightarrow> tensor3 \<Rightarrow> error + tensor3" where
  "TransformerLayer_forward h l x =
     thenR (LayerNorm_forward h (norm1 l) x) (\<lambda>r.
     thenR (MultiHeadAttention_forward h (attention l) r) (\<lambda>r.
     thenR (add3 r x) (\<lambda>cache.
     thenR (LayerNorm_forward h (norm2 l) cache) (\<lambda>r.
     thenR (FeedForwardLayer_forward h (feedforward l) r) (\<lambda>r.
       add3 r cache)))))"

text \<open>
  The block as the specification words it: feedforward(norm2(attention(norm1(x)) + x))
  + (attention(norm1(x)) + x).
\<close>

definition residual_attention :: "heap \<Rightarrow> transformer_layer \<Rightarrow> tensor3 \<Rightarrow> error + tensor3" where
  "residual_attention h l x =
     thenR (thenR (LayerNorm_forward h (norm1 l) x) (MultiHeadAttention_forward h (attention l)))
       (\<lambda>r. add3 r x)"

definition prenorm_block_spec :: "heap \<Rightarrow> transformer_layer \<Rightarrow> tensor3 \<Rightarrow> error + tensor3" where
  "prenorm_block_spec h l x =
     thenR (thenR (thenR (residual_attention h l x) (LayerNorm_forward h (norm2 l)))
              (FeedForwardLayer_forward h (feedforward l)))
       (\<lambda>r. thenR (residual_attention h l x) (\<lambda>c. add3 r c))"

section \<open>nn.Embedding and token tensors\<close>

record embedding =
  num_embeddings :: nat
  embedding_dim :: nat
  emb_weight :: nat

definition Embedding_init ::
  "(nat \<Rightarrow> nat \<Rightarrow> nat \<Rightarrow> real) \<Rightarrow> nat \<Rightarrow> nat \<Rightarrow> pstate \<Rightarrow> embedding \<times> pstate" where
  "Embedding_init rnd n d s =
     (let (w, s1) = rand_tensor rnd n d s;
          (wa, s2) = new_param w s1
      in (\<lparr>num_embeddings = n, embedding_dim = d, emb_weight = wa\<rparr>, s2))"

text \<open>A tensor of token ids of shape \<open>(kB, kS)\<close>; a 1-D tensor of token ids is a list.\<close>

record tokens2 =
  kB :: nat
  kS :: nat
  toks :: "int list list"

definition wf_tokens :: "tokens2 \<Rightarrow> bool" where
  "wf_tokens x = (length (toks x) = kB x \<and> list_all (\<lambda>r. length r = kS x) (toks x))"

datatype token_input = Tok1 "int list" | Tok2 tokens2

definition unsqueeze0_tokens :: "int list \<Rightarrow> tokens2" where
  "unsqueeze0_tokens xs = \<lparr>kB = 1, kS = length xs, toks = [xs]\<rparr>"

definition in_range :: "nat \<Rightarrow> int \<Rightarrow> bool" where
  "in_range n t = (0 \<le> t \<and> t < int n)"

text \<open>The lookup raises \<open>IndexError\<close> for an id outside the table.\<close>

definition Embedding_forward :: "heap \<Rightarrow> embedding \<Rightarrow> tokens2 \<Rightarrow> error + tensor3" where
  "Embedding_forward h E x =
     (if list_all (list_all (in_range (num_embeddings E))) (toks x)
      then Inr (tabulate3 (kB x) (kS x) (embedding_dim E)
                  (\<lambda>b i k. h (emb_weight E) ! nat (toks x ! b ! i) ! k))
      else Inl IndexError)"

definition Embedding_forward1 :: "heap \<Rightarrow> embedding \<Rightarrow> int list \<Rightarrow> error + tensor2" where
  "Embedding_forward1 h E xs =
     (if list_all (in_range (num_embeddings E)) xs
      then Inr (tabulate2 (length xs) (embedding_dim E)
                  (\<lambda>i k. h (emb_weight E) ! nat (xs ! i) ! k))
      else Inl IndexError)"

definition unsqueeze0 :: "tensor2 \<Rightarrow> tensor3" where
  "unsqueeze0 t = \<lparr>tB = 1, tN = mR t, tD = mC t, vals = [mvals t]\<rparr>"

section \<open>MiniGPT\<close>

text \<open>The configuration object; its class is outside the sources and is taken as given.\<close>

record config =
  vocab_size :: nat
  embed_dim :: nat
  context_length :: nat
  embed_dropout :: real
  cfg_num_heads :: nat
  feedforward_size :: "nat option"
  num_layers :: nat
  weight_tie :: bool

record minigpt =
  vocab_embedding :: embedding
  positional_embedding :: embedding
  gpt_embed_dropout :: real
  transformer_layers :: "transformer_layer list"
  prehead_norm :: layer_norm
  head :: linear
  pos :: "int list"

fun layers_init ::
  "(nat \<Rightarrow> nat \<Rightarrow> nat \<Rightarrow> real) \<Rightarrow> (real \<Rightarrow> real) \<Rightarrow> nat \<Rightarrow> nat \<Rightarrow> nat option \<Rightarrow> nat \<Rightarrow> pstate
     \<Rightarrow> error + transformer_layer list \<times> pstate" where
  "layers_init rnd gelu d n_heads fs 0 s = Inr ([], s)"
| "layers_init rnd gelu d n_heads fs (Suc n) s =
     (case TransformerLayer_init rnd gelu d n_heads fs s of
        Inl e \<Rightarrow> Inl e
      | Inr (l, s1) \<Rightarrow>
          (case layers_init rnd gelu d n_heads fs n s1 of
             Inl e \<Rightarrow> Inl e
           | Inr (ls, s2) \<Rightarrow> Inr (l # ls, s2)))"

text \<open>
  \<open>__init__\<close> up to the call of \<open>self.apply\<close>. With \<open>weight_tie\<close> the head's \<open>weight\<close>
  attribute is assigned the embedding's parameter: the same address.
\<close>

definition MiniGPT_construct ::
  "(nat \<Rightarrow> nat \<Rightarrow> nat \<Rightarrow> real) \<Rightarrow> (real \<Rightarrow> real) \<Rightarrow> config \<Rightarrow> pstate \<Rightarrow> error + minigpt \<times> pstate" where
  "MiniGPT_construct rnd gelu cfg s =
     (let (ve, s1) = Embedding_init rnd (vocab_size cfg) (embed_dim cfg) s;
          (pe, s2) = Embedding_init rnd (context_length cfg) (embed_dim cfg) s1
      in case layers_init rnd gelu (embed_dim cfg) (cfg_num_heads cfg) (feedforward_size cfg)
                (num_layers cfg) s2 of
           Inl e \<Rightarrow> Inl e
         | Inr (ls, s3) \<Rightarrow>
             (let (pn, s4) = LayerNorm_init (embed_dim cfg) (1 / 10 ^ 5) True s3;
                  (hd0, s5) = Linear_init rnd (embed_dim cfg) (vocab_size cfg) True s4;
                  hd1 = (if weight_tie cfg then hd0\<lparr>weight := emb_weight ve\<rparr> else hd0)
              in Inr (\<lparr>vocab_embedding = ve, positional_embedding = pe,
                       gpt_embed_dropout = embed_dropout cfg, transformer_layers = ls,
                       prehead_norm = pn, head = hd1,
                       pos = map int [0..<context_length cfg]\<rparr>, s5)))"

text \<open>
  \<open>self.apply(self._init_weights)\<close> visits the children of a module in the order they were
  registered, then the module. \<open>_init_weights\<close> acts on \<open>nn.Linear\<close> and \<open>nn.Embedding\<close>
  modules; the fills are in place, at the address of the parameter.
\<close>

datatype module = MLinear linear | MEmbedding embedding | MOther

definition SingleHeadAttention_modules :: "single_head_attention \<Rightarrow> module list" where
  "SingleHeadAttention_modules a =
     [MLinear (key a), MLinear (query a), MLinear (value_proj a), MOther, MOther]"

definition MultiHeadAttention_modules :: "multi_head_attention \<Rightarrow> module list" where
  "MultiHeadAttention_modules m =
     concat (map SingleHeadAttention_modules (heads m)) @ [MLinear (out m), MOther, MOther]"

definition FeedForwardLayer_modules :: "feed_forward_layer \<Rightarrow> module list" where
  "FeedForwardLayer_modules f = [MLinear (fc1 f), MOther, MLinear (fc2 f), MOther, MOther]"

definition TransformerLayer_modules :: "transformer_layer \<Rightarrow> module list" where
  "TransformerLayer_modules l =
     [MOther] @ MultiHeadAttention_modules (attention l) @ [MOther]
       @ FeedForwardLayer_modules (feedforward l) @ [MOther]"

definition MiniGPT_modules :: "minigpt \<Rightarrow> module list" where
  "MiniGPT_modules m =
     [MEmbedding (vocab_embedding m), MEmbedding (positional_embedding m), MOther]
       @ concat (map TransformerLayer_modules (transformer_layers m)) @ [MOther]
       @ [MOther, MLinear (head m), MOther]"

definition normal_fill :: "(nat \<Rightarrow> nat \<Rightarrow> nat \<Rightarrow> real) \<Rightarrow> nat \<Rightarrow> nat \<Rightarrow> nat \<Rightarrow> pstate \<Rightarrow> pstate" where
  "normal_fill rnd a r c s =
     (let (v, s1) = rand_tensor rnd r c s in s1\<lparr>heap := (heap s1)(a := v)\<rparr>)"

definition zeros_fill :: "nat \<Rightarrow> nat \<Rightarrow> pstate \<Rightarrow> pstate" where
  "zeros_fill a c s = s\<lparr>heap := (heap s)(a := [replicate c 0])\<rparr>"

text \<open>
  \<open>module._get_name()\<close> is the name of the class, \<open>Linear\<close>. The branch for \<open>fc2\<close> reads
  \<open>self.num_layers\<close>, an attribute \<open>MiniGPT\<close> does not have.
\<close>

definition Linear_get_name :: string where
  "Linear_get_name = ''Linear''"

definition init_weights :: "(nat \<Rightarrow> nat \<Rightarrow> nat \<Rightarrow> real) \<Rightarrow> module \<Rightarrow> pstate \<Rightarrow> error + pstate" where
  "init_weights rnd md s =
     (case md of
        MLinear L \<Rightarrow>
          (if Linear_get_name = ''fc2'' then Inl AttributeError
           else (let s1 = normal_fill rnd (weight L) (out_features L) (in_features L) s
                 in case bias L of
                      None \<Rightarrow> Inr s1
                    | Some b \<Rightarrow> Inr (zeros_fill b (out_features L) s1)))
      | MEmbedding E \<Rightarrow> Inr (normal_fill rnd (emb_weight E) (num_embeddings E) (embedding_dim E) s)
      | MOther \<Rightarrow> Inr s)"

fun apply_init_weights :: "(nat \<Rightarrow> nat \<Rightarrow> nat \<Rightarrow> real) \<Rightarrow> module list \<Rightarrow> pstate \<Rightarrow> error + pstate" where
  "apply_init_weights rnd [] s = Inr s"
| "apply_init_weights rnd (md # mds) s =
     (case init_weights rnd md s of Inl e \<Rightarrow> Inl e | Inr s1 \<Rightarrow> apply_init_weights rnd mds s1)"

definition MiniGPT_init ::
  "(nat \<Rightarrow> nat \<Rightarrow> nat \<Rightarrow> real) \<Rightarrow> (real \<Rightarrow> real) \<Rightarrow> config \<Rightarrow> pstate \<Rightarrow> error + minigpt \<times> pstate" where
  "MiniGPT_init rnd gelu cfg s =
     thenR (MiniGPT_construct rnd gelu cfg s) (\<lambda>(m, s1).
     thenR (apply_init_weights rnd (MiniGPT_modules m) s1) (\<lambda>s2. Inr (m, s2)))"

text \<open>The loop \<open>for transformer in self.transformer_layers: out = transformer(out)\<close>.\<close>

fun layers_forward :: "heap \<Rightarrow> transformer_layer list \<Rightarrow> tensor3 \<Rightarrow> error + tensor3" where
  "layers_forward h [] x = Inr x"
| "layers_forward h (l # ls) x =
     (case TransformerLayer_forward h l x of Inl e \<Rightarrow> Inl e | Inr y \<Rightarrow> layers_forward h ls y)"

text \<open>
  The embedding stage of \<open>forward\<close>: lookup, the slice of the positional rows, and their
  broadcast addition to the token embeddings.
\<close>

definition unsqueeze_if_1d :: "token_input \<Rightarrow> tokens2" where
  "unsqueeze_if_1d inp = (case inp of Tok1 xs \<Rightarrow> unsqueeze0_tokens xs | Tok2 t \<Rightarrow> t)"

definition MiniGPT_embed :: "heap \<Rightarrow> minigpt \<Rightarrow> token_input \<Rightarrow> error + tensor3" where
  "MiniGPT_embed h m inp =
     (let x = unsqueeze_if_1d inp in
      thenR (Embedding_forward h (vocab_embedding m) x) (\<lambda>r.
      thenR (Embedding_forward1 h (positional_embedding m) (pos m)) (\<lambda>pe.
        let position = slice2 pe (tN r) (mC pe)
        in add3 r (unsqueeze0 position))))"

text \<open>
  \<open>forward\<close>, with the module \<open>self.embed_dropout\<close> acting as \<open>drp\<close>; in eval mode that is
  \<open>dropout\<close>.
\<close>

definition MiniGPT_forward_with ::
  "(real \<Rightarrow> tensor3 \<Rightarrow> tensor3) \<Rightarrow> heap \<Rightarrow> minigpt \<Rightarrow> token_input \<Rightarrow> error + tensor3" where
  "MiniGPT_forward_with drp h m inp =
     (let x = unsqueeze_if_1d inp in
      thenR (Embedding_forward h (vocab_embedding m) x) (\<lambda>r.
      thenR (Embedding_forward1 h (positional_embedding m) (pos m)) (\<lambda>pe.
        let position = slice2 pe (tN r) (mC pe) in
      thenR (add3 r (unsqueeze0 position)) (\<lambda>r.
        let r = drp (gpt_embed_dropout m) r in
      thenR (layers_forward h (transformer_layers m) r) (\<lambda>r.
      thenR (LayerNorm_forward h (prehead_norm m) r) (\<lambda>r.
        Linear_forward h (head m) r))))))"

definition MiniGPT_forward :: "heap \<Rightarrow> minigpt \<Rightarrow> token_input \<Rightarrow> error + tensor3" where
  "MiniGPT_forward h m inp = MiniGPT_forward_with dropout h m inp"

text \<open>
  The pipeline as the specification words it: embedding lookup, addition of the learned
  positional embeddings of the positions \<open>0..seq_len-1\<close>, embedding dropout, the layers in
  sequence, the final norm and the linear head. The positional embedding of a position is
  its row of the table; a position outside the table has none, and the lookup raises.
\<close>

definition spec_add_positions :: "heap \<Rightarrow> minigpt \<Rightarrow> tensor3 \<Rightarrow> error + tensor3" where
  "spec_add_positions h m t =
     thenR (Embedding_forward1 h (positional_embedding m) (map int [0..<tN t])) (\<lambda>p.
       Inr (tabulate3 (tB t) (tN t) (tD t) (\<lambda>b i k. at3 t b i k + at2 p i k)))"

definition spec_layers :: "heap \<Rightarrow> transformer_layer list \<Rightarrow> tensor3 \<Rightarrow> error + tensor3" where
  "spec_layers h ls x = foldl (\<lambda>r l. thenR r (TransformerLayer_forward h l)) (Inr x) ls"

definition spec_pipeline ::
  "(real \<Rightarrow> tensor3 \<Rightarrow> tensor3) \<Rightarrow> heap \<Rightarrow> minigpt \<Rightarrow> tokens2 \<Rightarrow> error + tensor3" where
  "spec_pipeline drp h m x =
     thenR (thenR (thenR (thenR (Embedding_forward h (vocab_embedding m) x)
                            (spec_add_positions h m))
                     (\<lambda>e. spec_layers h (transformer_layers m) (drp (gpt_embed_dropout m) e)))
              (LayerNorm_forward h (prehead_norm m)))
       (Linear_forward h (head m))"

text \<open>The token embeddings plus the rows of the positional table at the same positions.\<close>

definition add_position_rows :: "heap \<Rightarrow> minigpt \<Rightarrow> tensor3 \<Rightarrow> tensor3" where
  "add_position_rows h m t =
     tabulate3 (tB t) (tN t) (tD t)
       (\<lambda>b i k. at3 t b i k + h (emb_weight (positional_embedding m)) ! i ! k)"

section \<open>MiniGPT.generate\<close>

text \<open>
  \<open>torch.multinomial\<close> draws from the tensor library's generator: \<open>smp i p\<close> is the index
  drawn at iteration \<open>i\<close> from the distribution \<open>p\<close>. It needs a non-empty distribution.
\<close>

definition select_last :: "tensor3 \<Rightarrow> error + tensor2" where
  "select_last t =
     (if tN t = 0 then Inl IndexError
      else Inr (tabulate2 (tB t) (tD t) (\<lambda>b k. at3 t b (tN t - 1) k)))"

definition multinomial :: "(nat \<Rightarrow> real list \<Rightarrow> nat) \<Rightarrow> nat \<Rightarrow> tensor2 \<Rightarrow> error + int list" where
  "multinomial smp i t =
     (if mC t = 0 then Inl SampleError
      else Inr (map (\<lambda>b. int (smp i (mvals t ! b))) [0..<mR t]))"

text \<open>One iteration of the loop: the tokens to append to \<open>input_stream\<close>.\<close>

definition generate_step ::
  "heap \<Rightarrow> minigpt \<Rightarrow> (nat \<Rightarrow> real list \<Rightarrow> nat) \<Rightarrow> nat \<Rightarrow> int list \<Rightarrow> error + int list" where
  "generate_step h m smp i input_stream =
     (let context = drop (length input_stream - 10) input_stream in
      thenR (MiniGPT_forward h m (Tok1 context)) (\<lambda>output.
        let prob = softmax output in
      thenR (select_last prob) (\<lambda>last_token_prob.
        multinomial smp i last_token_prob)))"

fun generate_loop ::
  "heap \<Rightarrow> minigpt \<Rightarrow> (nat \<Rightarrow> real list \<Rightarrow> nat) \<Rightarrow> nat \<Rightarrow> nat \<Rightarrow> int list \<Rightarrow> error + int list" where
  "generate_loop h m smp i 0 input_stream = Inr input_stream"
| "generate_loop h m smp i (Suc n) input_stream =
     (case generate_step h m smp i input_stream of
        Inl e \<Rightarrow> Inl e
      | Inr pred \<Rightarrow> generate_loop h m smp (Suc i) n (input_stream @ pred))"

definition generate ::
  "heap \<Rightarrow> minigpt \<Rightarrow> (nat \<Rightarrow> real list \<Rightarrow> nat) \<Rightarrow> int list \<Rightarrow> nat \<Rightarrow> error + int list" where
  "generate h m smp context max_new_tokens = generate_loop h m smp 0 max_new_tokens context"

section \<open>What the constructors establish\<close>

text \<open>The shapes \<open>MultiHeadAttention.__init__\<close> gives its heads, and the shape of a tensor.\<close>

definition head_shape :: "nat \<Rightarrow> nat \<Rightarrow> single_head_attention \<Rightarrow> bool" where
  "head_shape d hdim a = (sha_ok a 512 \<and> sha_input_dim a = d \<and> output_value_dim a = hdim)"

definition out_shape :: "nat \<Rightarrow> nat \<Rightarrow> nat \<Rightarrow> tensor3 \<Rightarrow> bool" where
  "out_shape B N D t = (tB t = B \<and> tN t = N \<and> tD t = D \<and> wf3 t)"

text \<open>What \<open>MultiHeadAttention.__init__\<close> establishes for \<open>num_heads\<close> heads on dimension \<open>d\<close>.\<close>

definition mha_ok :: "nat \<Rightarrow> nat \<Rightarrow> multi_head_attention \<Rightarrow> bool" where
  "mha_ok d nh m =
     (0 < nh \<and> mha_input_dim m = d \<and> num_heads m = nh \<and> length (heads m) = nh \<and>
      list_all (head_shape d (truthy_or (Some (d div nh)) d)) (heads m) \<and>
      in_features (out m) = d \<and> out_features (out m) = d)"

text \<open>What the constructors establish between the fields of the modules they build.\<close>

definition norm_ok :: "nat \<Rightarrow> layer_norm \<Rightarrow> bool" where
  "norm_ok d nl = (normalized_shape nl = d \<and> gamma nl \<noteq> None \<and> beta nl \<noteq> None)"

definition ff_ok :: "nat \<Rightarrow> feed_forward_layer \<Rightarrow> bool" where
  "ff_ok d f = (in_features (fc1 f) = d \<and> out_features (fc1 f) = in_features (fc2 f) \<and>
                out_features (fc2 f) = d)"

definition layer_ok :: "nat \<Rightarrow> nat \<Rightarrow> transformer_layer \<Rightarrow> bool" where
  "layer_ok d nh l = (norm_ok d (norm1 l) \<and> mha_ok d nh (attention l) \<and> norm_ok d (norm2 l) \<and>
                      ff_ok d (feedforward l))"

definition gpt_ok :: "config \<Rightarrow> minigpt \<Rightarrow> bool" where
  "gpt_ok cfg m =
     (num_embeddings (vocab_embedding m) = vocab_size cfg \<and>
      embedding_dim (vocab_embedding m) = embed_dim cfg \<and>
      num_embeddings (positional_embedding m) = context_length cfg \<and>
      embedding_dim (positional_embedding m) = embed_dim cfg \<and>
      pos m = map int [0..<context_length cfg] \<and>
      length (transformer_layers m) = num_layers cfg \<and>
      list_all (layer_ok (embed_dim cfg) (cfg_num_heads cfg)) (transformer_layers m) \<and>
      norm_ok (embed_dim cfg) (prehead_norm m) \<and>
      in_features (head m) = embed_dim cfg \<and> out_features (head m) = vocab_size cfg)"

section \<open>Example inputs\<close>

definition init_state :: pstate where
  "init_state = \<lparr>heap = (\<lambda>a. []), next_addr = 0, draws = 0\<rparr>"

text \<open>Draws that give the key projection the weight \<open>-1\<close> and every later parameter 1.\<close>

definition ex_rnd :: "nat \<Rightarrow> nat \<Rightarrow> nat \<Rightarrow> real" where
  "ex_rnd n i j = (if n = 0 then - 1 else 1)"

definition ex_head :: "single_head_attention \<times> pstate" where
  "ex_head = SingleHeadAttention_init ex_rnd 1 None None (1 / 10) 2 init_state"

definition ex_x :: tensor3 where
  "ex_x = \<lparr>tB = 1, tN = 2, tD = 1, vals = [[[2 ^ 20], [0]]]\<rparr>"

definition ex_x' :: tensor3 where
  "ex_x' = \<lparr>tB = 1, tN = 2, tD = 1, vals = [[[2 ^ 20], [1]]]\<rparr>"


definition ex_const :: tensor3 where
  "ex_const = \<lparr>tB = 1, tN = 1, tD = 2, vals = [[[1, 1]]]\<rparr>"


text \<open>A head with \<open>output_value_dim = 1\<close> on inputs of dimension 2, and layers of 1 and of 3 heads.\<close>

definition ex_head_narrow :: "single_head_attention \<times> pstate" where
  "ex_head_narrow = SingleHeadAttention_init ex_rnd 2 None (Some 1) (1 / 10) 2 init_state"

definition ex_mha1 :: "error + multi_head_attention \<times> pstate" where
  "ex_mha1 = MultiHeadAttention_init ex_rnd 1 1 (1 / 10) init_state"

definition ex_mha :: "error + multi_head_attention \<times> pstate" where
  "ex_mha = MultiHeadAttention_init ex_rnd 2 3 (1 / 10) init_state"

text \<open>
  A configuration with one layer, one head, a vocabulary of one token and
  \<open>context_length = 1\<close>, the model built from it, and the same with \<open>context_length = 2\<close>.
  The activation is a stand-in: no statement below depends on it.
\<close>

definition ex_act :: "real \<Rightarrow> real" where
  "ex_act v = v"

definition ex_cfg :: config where
  "ex_cfg = \<lparr>vocab_size = 1, embed_dim = 1, context_length = 1, embed_dropout = 1 / 10,
             cfg_num_heads = 1, feedforward_size = None, num_layers = 1, weight_tie = True\<rparr>"

definition ex_gpt :: "error + minigpt \<times> pstate" where
  "ex_gpt = MiniGPT_init ex_rnd ex_act ex_cfg init_state"

definition ex_gpt2 :: "error + minigpt \<times> pstate" where
  "ex_gpt2 = MiniGPT_init ex_rnd ex_act (ex_cfg\<lparr>context_length := 2\<rparr>) init_state"

text \<open>The same with a vocabulary of two tokens and \<open>context_length = 10\<close>.\<close>

definition ex_gpt10 :: "error + minigpt \<times> pstate" where
  "ex_gpt10 = MiniGPT_init ex_rnd ex_act (ex_cfg\<lparr>vocab_size := 2, context_length := 10\<rparr>) init_state"

text \<open>A sampler that always draws index 0, and one that always draws the last index.\<close>

definition ex_smp :: "nat \<Rightarrow> real list \<Rightarrow> nat" where
  "ex_smp i p = 0"

definition ex_smp_last :: "nat \<Rightarrow> real list \<Rightarrow> nat" where
  "ex_smp_last i p = length p - 1"

section \<open>Basic facts\<close>


lemma tabulate3_sel [simp]:
  "tB (tabulate3 B N D f) = B" "tN (tabulate3 B N D f) = N" "tD (tabulate3 B N D f) = D"
  by (simp_all add: tabulate3_def)

lemma at3_tabulate3 [simp]:
  "b < B \<Longrightarrow> i < N \<Longrightarrow> k < D \<Longrightarrow> at3 (tabulate3 B N D f) b i k = f b i k"
  by (simp add: tabulate3_def at3_def)

lemma wf3_tabulate3 [simp]: "wf3 (tabulate3 B N D f)"
  by (simp add: wf3_def tabulate3_def list_all_iff)

lemma tabulate2_sel [simp]:
  "mR (tabulate2 R C f) = R" "mC (tabulate2 R C f) = C"
  by (simp_all add: tabulate2_def)

lemma at2_tabulate2 [simp]:
  "i < R \<Longrightarrow> j < C \<Longrightarrow> at2 (tabulate2 R C f) i j = f i j"
  by (simp add: tabulate2_def at2_def)

section \<open>The causal mask\<close>

lemma SHA_init_mask:
  "causal_mask (fst (SingleHeadAttention_init rnd d okq ov p max_len s)) = triu (ones max_len max_len) 1"
  by (simp add: SingleHeadAttention_init_def Let_def split: prod.splits)

text \<open>
  Claim C2. The \<open>causal_mask\<close> buffer that \<open>SingleHeadAttention.__init__\<close> registers has
  shape \<open>(max_len, max_len)\<close>, and its entry \<open>(i, j)\<close> is 1 if \<open>j > i\<close> and 0 otherwise;
  the diagonal is 0.
\<close>

theorem causal_mask_strictly_upper:
  "mR (causal_mask (fst (SingleHeadAttention_init rnd d okq ov p max_len s))) = max_len \<and>
   mC (causal_mask (fst (SingleHeadAttention_init rnd d okq ov p max_len s))) = max_len \<and>
   (\<forall>i<max_len. \<forall>j<max_len.
      at2 (causal_mask (fst (SingleHeadAttention_init rnd d okq ov p max_len s))) i j
        = (if i < j then 1 else 0))"
  by (auto simp add: SHA_init_mask triu_def ones_def)

theorem causal_mask_strictly_upper_witness:
  "at2 (causal_mask (fst (SingleHeadAttention_init ex_rnd 2 None None (1 / 10) 3 init_state))) 0 1 = 1 \<and>
   at2 (causal_mask (fst (SingleHeadAttention_init ex_rnd 2 None None (1 / 10) 3 init_state))) 1 1 = 0 \<and>
   at2 (causal_mask (fst (SingleHeadAttention_init ex_rnd 2 None None (1 / 10) 3 init_state))) 2 1 = 0"
  using causal_mask_strictly_upper [of ex_rnd 2 None None "1 / 10" 3 init_state]
  by simp

section \<open>SingleHeadAttention.forward and later positions\<close>

lemma Linear_forward_eq:
  "tD x = in_features L \<Longrightarrow>
   Linear_forward h L x = Inr (tabulate3 (tB x) (tN x) (out_features L) (Linear_out h L x))"
  by (simp add: Linear_forward_def)

lemma Linear_forward_err:
  "tD x \<noteq> in_features L \<Longrightarrow> Linear_forward h L x = Inl ShapeError"
  by (simp add: Linear_forward_def)

lemma thenR_simps [simp]: "thenR (Inl e) f = Inl e" "thenR (Inr y) f = f y"
  by (simp_all add: thenR_def)

lemma returns_simps [simp]: "returns (Inl e) = False" "returns (Inr y) = True"
  by (simp_all add: returns_def)

lemma bidx_lt [simp]: "i < n \<Longrightarrow> bidx n i = i"
  by (auto simp add: bidx_def)

lemma Linear_init_sel [simp]:
  "in_features (fst (Linear_init rnd i o_f b s)) = i"
  "out_features (fst (Linear_init rnd i o_f b s)) = o_f"
  by (simp_all add: Linear_init_def Let_def split: prod.splits)


lemma SHA_init_ok:
  "sha_ok (fst (SingleHeadAttention_init rnd d okq ov p L s)) L"
  "sha_input_dim (fst (SingleHeadAttention_init rnd d okq ov p L s)) = d"
  "output_key_query_dim (fst (SingleHeadAttention_init rnd d okq ov p L s)) = truthy_or okq d"
  "output_value_dim (fst (SingleHeadAttention_init rnd d okq ov p L s)) = truthy_or ov d"
  by (simp_all add: SingleHeadAttention_init_def sha_ok_def Let_def split_beta)


lemma tabulate3_cong:
  "(\<And>b i k. b < B \<Longrightarrow> i < N \<Longrightarrow> k < D \<Longrightarrow> f b i k = g b i k) \<Longrightarrow> tabulate3 B N D f = tabulate3 B N D g"
  by (simp add: tabulate3_def)

lemma mask_entry:
  "i < n \<Longrightarrow> j < n \<Longrightarrow> n \<le> L \<Longrightarrow>
   at2 (slice2 (triu (ones L L) 1) n n) i j = (if i < j then 1 else 0)"
  by (auto simp add: slice2_def triu_def ones_def min_absorb1)

lemma SHA_scores_eq:
  assumes ok: "sha_ok a L" and d: "tD x = sha_input_dim a" and n: "tN x \<le> L"
  shows "SingleHeadAttention_scores h a x = Inr (tabulate3 (tB x) (tN x) (tN x) (score_entry h a x))"
proof -
  have q: "Linear_forward h (query a) x = Inr (tabulate3 (tB x) (tN x) (output_key_query_dim a) (Linear_out h (query a) x))"
    using ok d by (simp add: Linear_forward_eq sha_ok_def)
  have k: "Linear_forward h (key a) x = Inr (tabulate3 (tB x) (tN x) (output_key_query_dim a) (Linear_out h (key a) x))"
    using ok d by (simp add: Linear_forward_eq sha_ok_def)
  have v: "Linear_forward h (value_proj a) x = Inr (tabulate3 (tB x) (tN x) (output_value_dim a) (Linear_out h (value_proj a) x))"
    using ok d by (simp add: Linear_forward_eq sha_ok_def)
  have cm: "causal_mask a = triu (ones L L) 1" using ok by (simp add: sha_ok_def)
  have sl: "mR (slice2 (triu (ones L L) 1) (tN x) (tN x)) = tN x" "mC (slice2 (triu (ones L L) 1) (tN x) (tN x)) = tN x"
    using n by (simp_all add: slice2_def triu_def ones_def min_absorb1)
  show ?thesis
    unfolding SingleHeadAttention_scores_def q k v thenR_simps
    apply (simp add: matmul_def transpose3_def div_scalar_def Let_def masked_fill_eq_def cm sl)
    apply (rule tabulate3_cong)
    apply (simp add: mask_entry n score_entry_def)
    done
qed




lemma SHA_weights_eq:
  assumes ok: "sha_ok a L" and d: "tD x = sha_input_dim a" and n: "tN x \<le> L"
  shows "SingleHeadAttention_weights h a x = Inr (tabulate3 (tB x) (tN x) (tN x) (attn_weight h a x))"
  unfolding SingleHeadAttention_weights_def SHA_scores_eq [OF ok d n] thenR_simps
  apply (simp add: dropout_def softmax_def)
  apply (rule tabulate3_cong)
  apply (simp add: attn_weight_def)
  done

lemma SHA_forward_weights:
  "SingleHeadAttention_forward h a x =
     thenR (SingleHeadAttention_weights h a x) (\<lambda>W.
     thenR (Linear_forward h (value_proj a) x) (\<lambda>V. matmul W V))"
  by (simp add: SingleHeadAttention_forward_def SingleHeadAttention_weights_def
        SingleHeadAttention_scores_def thenR_def Let_def split: sum.splits)

lemma SHA_forward_eq:
  assumes ok: "sha_ok a L" and d: "tD x = sha_input_dim a" and n: "tN x \<le> L"
  shows "SingleHeadAttention_forward h a x =
     Inr (tabulate3 (tB x) (tN x) (output_value_dim a)
            (\<lambda>b i k. \<Sum>j<tN x. attn_weight h a x b i j * Linear_out h (value_proj a) x b j k))"
proof -
  have v: "Linear_forward h (value_proj a) x = Inr (tabulate3 (tB x) (tN x) (output_value_dim a) (Linear_out h (value_proj a) x))"
    using ok d by (simp add: Linear_forward_eq sha_ok_def)
  show ?thesis
    unfolding SHA_forward_weights SHA_weights_eq [OF ok d n] v thenR_simps
    apply (simp add: matmul_def)
    apply (rule tabulate3_cong)
    apply simp
    done
qed

lemma Linear_out_agree:
  assumes "in_features L = tD x" "tD x' = tD x"
    and "\<forall>k<tD x. at3 x b j k = at3 x' b j k"
  shows "Linear_out h L x b j c = Linear_out h L x' b j c"
  using assms by (simp add: Linear_out_def)

lemma score_entry_agree:
  assumes ok: "sha_ok a L" and d: "tD x = sha_input_dim a" and d': "tD x' = tD x"
    and agree: "\<forall>j\<le>i. \<forall>k<tD x. at3 x b j k = at3 x' b j k"
  shows "score_entry h a x b i j = score_entry h a x' b i j"
proof (cases "i < j")
  case True
  then show ?thesis by (simp add: score_entry_def)
next
  case False
  have q: "Linear_out h (query a) x b i c = Linear_out h (query a) x' b i c" for c
    using ok d d' agree by (intro Linear_out_agree) (simp_all add: sha_ok_def)
  have k: "Linear_out h (key a) x b j c = Linear_out h (key a) x' b j c" for c
    using ok d d' agree False by (intro Linear_out_agree) (simp_all add: sha_ok_def)
  show ?thesis by (simp add: score_entry_def q k)
qed

lemma attn_weight_agree:
  assumes ok: "sha_ok a L" and d: "tD x = sha_input_dim a" and d': "tD x' = tD x" and n': "tN x' = tN x"
    and agree: "\<forall>j\<le>i. \<forall>k<tD x. at3 x b j k = at3 x' b j k"
  shows "attn_weight h a x b i j = attn_weight h a x' b i j"
  by (simp add: attn_weight_def n' score_entry_agree [OF ok d d' agree])

lemma attn_weight_pos:
  assumes "j < tN x"
  shows "0 < attn_weight h a x b i j"
proof -
  have "0 < (\<Sum>k<tN x. exp (score_entry h a x b i k))"
    using assms by (intro sum_pos) auto
  then show ?thesis by (simp add: attn_weight_def)
qed

lemma ex_head_ok: "sha_ok (fst ex_head) 2" "sha_input_dim (fst ex_head) = 1"
  "output_value_dim (fst ex_head) = 1" "output_key_query_dim (fst ex_head) = 1"
  by (simp_all add: ex_head_def SHA_init_ok truthy_or_def)

lemma ex_head_heap:
  "heap (snd ex_head) (weight (key (fst ex_head))) = [[- 1]]"
  "heap (snd ex_head) (weight (query (fst ex_head))) = [[1]]"
  "heap (snd ex_head) (weight (value_proj (fst ex_head))) = [[1]]"
  "bias (key (fst ex_head)) = None" "bias (query (fst ex_head)) = None"
  "bias (value_proj (fst ex_head)) = None"
  "in_features (key (fst ex_head)) = 1" "in_features (query (fst ex_head)) = 1"
  "in_features (value_proj (fst ex_head)) = 1"
  by (simp_all add: ex_head_def SingleHeadAttention_init_def Linear_init_def rand_tensor_def
        new_param_def init_state_def ex_rnd_def truthy_or_def Let_def)

lemma ex_value_out:
  "Linear_out (heap (snd ex_head)) (value_proj (fst ex_head)) x b j 0 = at3 x b j 0"
  by (simp add: Linear_out_def ex_head_heap)

lemma ex_scores:
  "returns (SingleHeadAttention_scores (heap (snd ex_head)) (fst ex_head) ex_x) \<and>
   at3 (projr (SingleHeadAttention_scores (heap (snd ex_head)) (fst ex_head) ex_x)) 0 0 0 = - (2 ^ 40) \<and>
   at3 (projr (SingleHeadAttention_scores (heap (snd ex_head)) (fst ex_head) ex_x)) 0 0 1 = - (10 ^ 10)"
proof -
  let ?h = "heap (snd ex_head)" and ?a = "fst ex_head"
  have dx: "tD ex_x = sha_input_dim ?a" by (simp add: ex_head_ok ex_x_def)
  have nx: "tN ex_x \<le> 2" by (simp add: ex_x_def)
  note S = SHA_scores_eq [OF ex_head_ok(1) dx nx, of ?h]
  have sh: "tB ex_x = 1" "tN ex_x = 2" by (simp_all add: ex_x_def)
  have at: "at3 ex_x 0 0 0 = 2 ^ 20" by (simp add: ex_x_def at3_def)
  show ?thesis
    unfolding S
    by (simp add: sh score_entry_def ex_head_ok Linear_out_def ex_head_heap at)
qed

text \<open>
  Claim C1 fails at this input. The head has key weight \<open>-1\<close>, query and value weight 1;
  the two inputs agree on row 0, \<open>2 ^ 20\<close>, and differ on row 1. The score of position 0
  for itself is \<open>-2 ^ 40\<close>, below the finite fill \<open>-1e10\<close> of the masked position 1, so
  the softmax of row 0 puts its weight on position 1, and the outputs at position 0 differ.
  The inputs, the weights and both scores are binary floating-point numbers and the products
  are exact; rounding moves the softmax of row 0 to \<open>(0, 1)\<close>, so that the outputs at
  position 0 are the rows 1 of the inputs, 0 and 1.
\<close>

theorem SingleHeadAttention_future_row_changes_output:
  "at3 ex_x 0 0 0 = at3 ex_x' 0 0 0 \<and>
   at3 (projr (SingleHeadAttention_scores (heap (snd ex_head)) (fst ex_head) ex_x)) 0 0 0 = - (2 ^ 40) \<and>
   at3 (projr (SingleHeadAttention_scores (heap (snd ex_head)) (fst ex_head) ex_x)) 0 0 1 = - (10 ^ 10) \<and>
   returns (SingleHeadAttention_forward (heap (snd ex_head)) (fst ex_head) ex_x) \<and>
   returns (SingleHeadAttention_forward (heap (snd ex_head)) (fst ex_head) ex_x') \<and>
   at3 (projr (SingleHeadAttention_forward (heap (snd ex_head)) (fst ex_head) ex_x)) 0 0 0
     \<noteq> at3 (projr (SingleHeadAttention_forward (heap (snd ex_head)) (fst ex_head) ex_x')) 0 0 0"
proof -
  let ?h = "heap (snd ex_head)" and ?a = "fst ex_head"
  have dx: "tD ex_x = sha_input_dim ?a" "tD ex_x' = sha_input_dim ?a"
    by (simp_all add: ex_head_ok ex_x_def ex_x'_def)
  have nx: "tN ex_x \<le> 2" "tN ex_x' \<le> 2" by (simp_all add: ex_x_def ex_x'_def)
  note Y = SHA_forward_eq [OF ex_head_ok(1) dx(1) nx(1), of ?h]
  note Y' = SHA_forward_eq [OF ex_head_ok(1) dx(2) nx(2), of ?h]
  have sh: "tB ex_x = 1" "tN ex_x = 2" "tB ex_x' = 1" "tN ex_x' = 2" "tD ex_x = 1" "tD ex_x' = 1"
    by (simp_all add: ex_x_def ex_x'_def)
  have at: "at3 ex_x 0 0 0 = 2 ^ 20" "at3 ex_x' 0 0 0 = 2 ^ 20" "at3 ex_x 0 (Suc 0) 0 = 0" "at3 ex_x' 0 (Suc 0) 0 = 1"
    by (simp_all add: ex_x_def ex_x'_def at3_def)
  have w: "attn_weight ?h ?a ex_x 0 0 j = attn_weight ?h ?a ex_x' 0 0 j" for j
    by (rule attn_weight_agree [OF ex_head_ok(1) dx(1)]) (simp_all add: sh at)
  have pos: "0 < attn_weight ?h ?a ex_x' 0 0 1"
    by (rule attn_weight_pos) (simp add: sh)
  have two: "{..<2::nat} = {0, 1}" by auto
  have y: "at3 (projr (SingleHeadAttention_forward ?h ?a ex_x)) 0 0 0
            = attn_weight ?h ?a ex_x' 0 0 0 * 2 ^ 20"
    unfolding Y by (simp add: sh ex_head_ok ex_value_out two at w)
  have y': "at3 (projr (SingleHeadAttention_forward ?h ?a ex_x')) 0 0 0
            = attn_weight ?h ?a ex_x' 0 0 0 * 2 ^ 20 + attn_weight ?h ?a ex_x' 0 0 1"
    unfolding Y' by (simp add: sh ex_head_ok ex_value_out two at)
  show ?thesis
    unfolding y y' using pos ex_scores by (simp add: at Y Y')
qed


section \<open>LayerNorm.forward\<close>

lemma bcast_dim_same [simp]: "bcast_dim a a = Some a"
  by (simp add: bcast_dim_def)









section \<open>TransformerLayer.forward\<close>

text \<open>
  Claim C4. \<open>TransformerLayer.forward\<close> returns
  feedforward(norm2(attention(norm1(x)) + x)) + (attention(norm1(x)) + x), an exception of a
  sublayer being passed on: each sublayer works on the normalised stream and its output is
  added to the stream that was not normalised.
\<close>

theorem TransformerLayer_forward_prenorm:
  "TransformerLayer_forward h l x = prenorm_block_spec h l x"
  by (simp add: TransformerLayer_forward_def prenorm_block_spec_def residual_attention_def
        thenR_def split: sum.splits)

section \<open>Shapes of the attention layers\<close>

lemma SHA_forward_shape:
  assumes "sha_ok a L" "tD x = sha_input_dim a" "tN x \<le> L"
  shows "\<exists>y. SingleHeadAttention_forward h a x = Inr y \<and> tB y = tB x \<and> tN y = tN x \<and>
              tD y = output_value_dim a \<and> wf3 y"
  unfolding SHA_forward_eq [OF assms] by simp

lemma SHA_forward_dim_error:
  assumes "sha_ok a L" "tD x \<noteq> sha_input_dim a"
  shows "SingleHeadAttention_forward h a x = Inl ShapeError"
  using assms by (simp add: SingleHeadAttention_forward_def sha_ok_def Linear_forward_err)

lemma SHA_forward_len_error:
  assumes ok: "sha_ok a L" and d: "tD x = sha_input_dim a" and n: "L < tN x" and l: "L \<noteq> 1"
  shows "SingleHeadAttention_forward h a x = Inl ShapeError"
proof -
  have q: "Linear_forward h (query a) x = Inr (tabulate3 (tB x) (tN x) (output_key_query_dim a) (Linear_out h (query a) x))"
    using ok d by (simp add: Linear_forward_eq sha_ok_def)
  have k: "Linear_forward h (key a) x = Inr (tabulate3 (tB x) (tN x) (output_key_query_dim a) (Linear_out h (key a) x))"
    using ok d by (simp add: Linear_forward_eq sha_ok_def)
  have v: "Linear_forward h (value_proj a) x = Inr (tabulate3 (tB x) (tN x) (output_value_dim a) (Linear_out h (value_proj a) x))"
    using ok d by (simp add: Linear_forward_eq sha_ok_def)
  have cm: "causal_mask a = triu (ones L L) 1" using ok by (simp add: sha_ok_def)
  have sl: "mR (slice2 (triu (ones L L) 1) (tN x) (tN x)) = L"
    using n by (simp add: slice2_def triu_def ones_def min_absorb2)
  show ?thesis
    unfolding SingleHeadAttention_forward_def q k v thenR_simps
    using n l by (simp add: matmul_def transpose3_def div_scalar_def Let_def masked_fill_eq_def cm sl)
qed

lemma heads_init_shape:
  "length (fst (heads_init rnd d hdim n s)) = n \<and>
   list_all (head_shape d (truthy_or (Some hdim) d)) (fst (heads_init rnd d hdim n s))"
proof (induction n arbitrary: s)
  case 0
  then show ?case by simp
next
  case (Suc n)
  show ?case
    using Suc.IH
    by (simp add: split_beta Let_def head_shape_def SHA_init_ok)
qed

lemma heads_forward_shape:
  assumes "list_all (head_shape (tD x) hdim) hs" "tN x \<le> 512"
  shows "\<exists>vs. heads_forward h hs x = Inr vs \<and> length vs = length hs \<and>
               list_all (out_shape (tB x) (tN x) hdim) vs"
  using assms(1)
proof (induction hs)
  case Nil
  then show ?case by simp
next
  case (Cons a hs)
  then have a: "sha_ok a 512" "tD x = sha_input_dim a" "output_value_dim a = hdim"
    by (simp_all add: head_shape_def)
  from SHA_forward_shape [OF a(1) a(2) assms(2), of h]
  obtain y where y: "SingleHeadAttention_forward h a x = Inr y" "out_shape (tB x) (tN x) hdim y"
    by (auto simp add: out_shape_def a)
  from Cons obtain vs where vs: "heads_forward h hs x = Inr vs" "length vs = length hs"
      "list_all (out_shape (tB x) (tN x) hdim) vs"
    by auto
  show ?case by (simp add: y vs)
qed

lemma cat_last_shape:
  assumes "vs \<noteq> []" "list_all (out_shape B N D) vs"
  shows "\<exists>c. cat_last vs = Inr c \<and> out_shape B N (length vs * D) c"
  using assms
proof (induction vs rule: cat_last.induct)
  case 1
  then show ?case by simp
next
  case (2 t)
  then show ?case by simp
next
  case (3 t u ts)
  then obtain c where c: "cat_last (u # ts) = Inr c" "out_shape B N (length (u # ts) * D) c"
    by auto
  have t: "out_shape B N D t" using 3 by simp
  show ?case
    using c t by (simp add: cat2_def out_shape_def)
qed

lemma heads_forward_error:
  assumes "hs \<noteq> []" "list_all (head_shape d hdim) hs"
    and "tD x \<noteq> d \<or> 512 < tN x"
  shows "heads_forward h hs x = Inl ShapeError"
proof -
  obtain a as where hs: "hs = a # as" using assms(1) by (cases hs) auto
  have a: "sha_ok a 512" "sha_input_dim a = d" using assms(2) hs by (simp_all add: head_shape_def)
  have "SingleHeadAttention_forward h a x = Inl ShapeError"
  proof (cases "tD x = d")
    case True
    then show ?thesis using assms(3) a by (intro SHA_forward_len_error [OF a(1)]) simp_all
  next
    case False
    then show ?thesis using a by (intro SHA_forward_dim_error [OF a(1)]) simp
  qed
  then show ?thesis by (simp add: hs)
qed

lemma head_dim_divides:
  assumes "0 < nh"
  shows "nh * truthy_or (Some (d div nh)) d = d \<longleftrightarrow> nh dvd d"
proof (cases "d div nh = 0")
  case True
  then have lt: "d < nh" using assms by (simp add: div_eq_0_iff)
  have "nh * d = d \<longleftrightarrow> nh dvd d"
  proof
    assume "nh * d = d"
    then have "d = 0 \<or> nh = 1" by auto
    then show "nh dvd d" by auto
  next
    assume "nh dvd d"
    then have "d = 0" using lt by (auto dest: dvd_imp_le)
    then show "nh * d = d" by simp
  qed
  then show ?thesis using True by (simp add: truthy_or_def)
next
  case False
  have "nh * (d div nh) = d \<longleftrightarrow> nh dvd d"
    by (metis dvd_mult_div_cancel dvd_triv_left)
  then show ?thesis using False by (simp add: truthy_or_def)
qed

lemma MHA_init_ok:
  assumes "MultiHeadAttention_init rnd d nh p s = Inr (m, s')"
  shows "mha_ok d nh m"
  using assms heads_init_shape [of rnd d "d div nh" nh s]
  by (auto simp add: MultiHeadAttention_init_def mha_ok_def Let_def split_beta split: if_splits)

lemma MHA_init_returns:
  "0 < nh \<Longrightarrow> \<exists>m s'. MultiHeadAttention_init rnd d nh p s = Inr (m, s')"
  by (simp add: MultiHeadAttention_init_def Let_def split_beta)

lemma MHA_forward_concat:
  "MultiHeadAttention_forward h m x =
     thenR (MultiHeadAttention_concat h m x) (\<lambda>c.
     thenR (Linear_forward h (out m) c) (\<lambda>r. Inr (dropout (mha_dropout m) r)))"
  by (simp add: MultiHeadAttention_forward_def MultiHeadAttention_concat_def thenR_def
        split: sum.splits)

lemma MHA_concat_shape:
  assumes ok: "mha_ok d nh m" and dx: "tD x = d" and n: "tN x \<le> 512"
  shows "\<exists>c. MultiHeadAttention_concat h m x = Inr c \<and>
              out_shape (tB x) (tN x) (nh * truthy_or (Some (d div nh)) d) c"
proof -
  have hs: "list_all (head_shape (tD x) (truthy_or (Some (d div nh)) d)) (heads m)"
    and len: "length (heads m) = nh" and pos: "0 < nh"
    using ok dx by (simp_all add: mha_ok_def)
  from heads_forward_shape [OF hs n, of h]
  obtain vs where vs: "heads_forward h (heads m) x = Inr vs" "length vs = nh"
      "list_all (out_shape (tB x) (tN x) (truthy_or (Some (d div nh)) d)) vs"
    using len by auto
  have ne: "vs \<noteq> []" using vs(2) pos by auto
  from cat_last_shape [OF ne vs(3)] vs(1,2)
  show ?thesis by (simp add: MultiHeadAttention_concat_def)
qed

lemma MHA_concat_error:
  assumes ok: "mha_ok d nh m" and bad: "tD x \<noteq> d \<or> 512 < tN x"
  shows "MultiHeadAttention_concat h m x = Inl ShapeError"
proof -
  have "heads m \<noteq> []" using ok by (auto simp add: mha_ok_def)
  moreover have "list_all (head_shape d (truthy_or (Some (d div nh)) d)) (heads m)"
    using ok by (simp add: mha_ok_def)
  ultimately have "heads_forward h (heads m) x = Inl ShapeError"
    using bad by (rule heads_forward_error)
  then show ?thesis by (simp add: MultiHeadAttention_concat_def)
qed

lemma MHA_forward_shape:
  assumes ok: "mha_ok d nh m" and dv: "nh dvd d" and dx: "tD x = d" and n: "tN x \<le> 512"
  shows "\<exists>y. MultiHeadAttention_forward h m x = Inr y \<and> out_shape (tB x) (tN x) d y"
proof -
  have pos: "0 < nh" and io: "in_features (out m) = d" "out_features (out m) = d"
    using ok by (simp_all add: mha_ok_def)
  from MHA_concat_shape [OF ok dx n, of h]
  obtain c where c: "MultiHeadAttention_concat h m x = Inr c"
      "out_shape (tB x) (tN x) (nh * truthy_or (Some (d div nh)) d) c"
    by auto
  have "tD c = d" using c(2) dv head_dim_divides [OF pos, of d] by (simp add: out_shape_def)
  then show ?thesis
    using c io
    by (simp add: MHA_forward_concat Linear_forward_eq dropout_def out_shape_def)
qed

lemma MHA_forward_error:
  assumes ok: "mha_ok d nh m" and dv: "\<not> nh dvd d"
  shows "MultiHeadAttention_forward h m x = Inl ShapeError"
proof (cases "tD x = d \<and> tN x \<le> 512")
  case True
  have pos: "0 < nh" and io: "in_features (out m) = d"
    using ok by (simp_all add: mha_ok_def)
  from MHA_concat_shape [OF ok, of x h] True
  obtain c where c: "MultiHeadAttention_concat h m x = Inr c"
      "out_shape (tB x) (tN x) (nh * truthy_or (Some (d div nh)) d) c"
    by auto
  have "tD c \<noteq> d" using c(2) dv head_dim_divides [OF pos, of d] by (simp add: out_shape_def)
  then show ?thesis
    using c io by (simp add: MHA_forward_concat Linear_forward_err)
next
  case False
  then have "tD x \<noteq> d \<or> 512 < tN x" by auto
  from MHA_concat_error [OF ok this, of h]
  show ?thesis by (simp add: MHA_forward_concat)
qed

lemma MHA_forward_only_shape:
  assumes ok: "mha_ok d nh m" and y: "MultiHeadAttention_forward h m x = Inr y"
  shows "nh dvd d \<and> tD x = d \<and> tN x \<le> 512 \<and> out_shape (tB x) (tN x) d y"
proof -
  have dv: "nh dvd d" using MHA_forward_error [OF ok, of h x] y by auto
  have dn: "tD x = d \<and> tN x \<le> 512"
  proof (rule ccontr)
    assume "\<not> (tD x = d \<and> tN x \<le> 512)"
    then have "tD x \<noteq> d \<or> 512 < tN x" by auto
    from MHA_concat_error [OF ok this, of h] y
    show False by (simp add: MHA_forward_concat)
  qed
  with MHA_forward_shape [OF ok dv, of x h] y show ?thesis using dv by auto
qed

lemma SHA_forward_only_shape:
  assumes ok: "sha_ok a L" and y: "SingleHeadAttention_forward h a x = Inr y"
  shows "tB y = tB x \<and> tN y = tN x \<and> tD y = output_value_dim a \<and> wf3 y"
proof -
  have d: "tD x = sha_input_dim a"
    using SHA_forward_dim_error [OF ok, of x h] y by auto
  have q: "Linear_forward h (query a) x = Inr (tabulate3 (tB x) (tN x) (output_key_query_dim a) (Linear_out h (query a) x))"
    using ok d by (simp add: Linear_forward_eq sha_ok_def)
  have k: "Linear_forward h (key a) x = Inr (tabulate3 (tB x) (tN x) (output_key_query_dim a) (Linear_out h (key a) x))"
    using ok d by (simp add: Linear_forward_eq sha_ok_def)
  have v: "Linear_forward h (value_proj a) x = Inr (tabulate3 (tB x) (tN x) (output_value_dim a) (Linear_out h (value_proj a) x))"
    using ok d by (simp add: Linear_forward_eq sha_ok_def)
  show ?thesis
    using y unfolding SingleHeadAttention_forward_def q k v thenR_simps
    by (auto simp add: matmul_def transpose3_def div_scalar_def Let_def masked_fill_eq_def
          dropout_def softmax_def split: if_splits)
qed

lemma projr_Inr_pair: "r = Inr (m, s) \<Longrightarrow> r = Inr (fst (projr r), snd (projr r))"
  by simp

text \<open>
  Claim C5, as amended. The output of \<open>MultiHeadAttention.forward\<close>, whenever there is one,
  has the shape of the input, and there is one when \<open>num_heads\<close> divides \<open>input_dim\<close>, the
  feature axis of the input is \<open>input_dim\<close> and there are at most 512 tokens. The output of
  \<open>SingleHeadAttention.forward\<close> has the shape \<open>(batch_size, num_tokens, output_value_dim)\<close>,
  where \<open>output_value_dim\<close> is the argument, or \<open>input_dim\<close> if that is \<open>None\<close> or 0; there is
  an output when the feature axis is \<open>input_dim\<close> and \<open>num_tokens \<le> max_len\<close>.
\<close>

theorem attention_output_shape:
  "(MultiHeadAttention_init rnd d nh p s = Inr (m, s') \<longrightarrow>
      (\<forall>y. MultiHeadAttention_forward h m x = Inr y \<longrightarrow> shape3 y = shape3 x \<and> wf3 y) \<and>
      (nh dvd d \<and> tD x = d \<and> tN x \<le> 512 \<longrightarrow> returns (MultiHeadAttention_forward h m x))) \<and>
   (a = fst (SingleHeadAttention_init rnd d okq ov q L s) \<longrightarrow>
      output_value_dim a = truthy_or ov d \<and>
      (\<forall>y. SingleHeadAttention_forward h a x = Inr y \<longrightarrow>
           shape3 y = (tB x, tN x, output_value_dim a) \<and> wf3 y) \<and>
      (tD x = d \<and> tN x \<le> L \<longrightarrow> returns (SingleHeadAttention_forward h a x)))"
proof (intro conjI impI allI)
  fix y
  assume i: "MultiHeadAttention_init rnd d nh p s = Inr (m, s')"
    and y: "MultiHeadAttention_forward h m x = Inr y"
  from MHA_forward_only_shape [OF MHA_init_ok [OF i] y]
  show "shape3 y = shape3 x" "wf3 y" by (simp_all add: out_shape_def shape3_def)
next
  assume i: "MultiHeadAttention_init rnd d nh p s = Inr (m, s')"
    and c: "nh dvd d \<and> tD x = d \<and> tN x \<le> 512"
  from MHA_forward_shape [OF MHA_init_ok [OF i], of x h] c
  show "returns (MultiHeadAttention_forward h m x)" by auto
next
  assume a: "a = fst (SingleHeadAttention_init rnd d okq ov q L s)"
  show "output_value_dim a = truthy_or ov d" by (simp add: a SHA_init_ok)
next
  fix y
  assume a: "a = fst (SingleHeadAttention_init rnd d okq ov q L s)"
    and y: "SingleHeadAttention_forward h a x = Inr y"
  have ok: "sha_ok a L" by (simp add: a SHA_init_ok)
  from SHA_forward_only_shape [OF ok y]
  show "shape3 y = (tB x, tN x, output_value_dim a)" "wf3 y" by (simp_all add: shape3_def)
next
  assume a: "a = fst (SingleHeadAttention_init rnd d okq ov q L s)"
    and c: "tD x = d \<and> tN x \<le> L"
  have ok: "sha_ok a L" and d: "sha_input_dim a = d" by (simp_all add: a SHA_init_ok)
  from SHA_forward_shape [OF ok, of x h] c d
  show "returns (SingleHeadAttention_forward h a x)" by auto
qed

lemma ex_mha1_Inr: "ex_mha1 = Inr (fst (projr ex_mha1), snd (projr ex_mha1))"
  using MHA_init_returns [of 1 ex_rnd 1 "1 / 10" init_state]
  unfolding ex_mha1_def by (auto intro: projr_Inr_pair)

theorem attention_output_shape_witness:
  "returns (MultiHeadAttention_forward (heap (snd (projr ex_mha1))) (fst (projr ex_mha1)) ex_x) \<and>
   shape3 (projr (MultiHeadAttention_forward (heap (snd (projr ex_mha1))) (fst (projr ex_mha1)) ex_x))
     = shape3 ex_x \<and>
   returns (SingleHeadAttention_forward (heap (snd (projr ex_mha1))) (fst ex_head) ex_x) \<and>
   shape3 (projr (SingleHeadAttention_forward (heap (snd (projr ex_mha1))) (fst ex_head) ex_x))
     = (1, 2, 1)"
proof -
  have sh: "tB ex_x = 1" "tN ex_x = 2" "tD ex_x = 1" by (simp_all add: ex_x_def)
  note t = attention_output_shape [of ex_rnd 1 1 "1 / 10" init_state "fst (projr ex_mha1)"
      "snd (projr ex_mha1)" "heap (snd (projr ex_mha1))" ex_x "fst ex_head" None None "1 / 10" 2]
  have i: "MultiHeadAttention_init ex_rnd 1 1 (1 / 10) init_state
             = Inr (fst (projr ex_mha1), snd (projr ex_mha1))"
    using ex_mha1_Inr by (simp add: ex_mha1_def)
  have a: "fst ex_head = fst (SingleHeadAttention_init ex_rnd 1 None None (1 / 10) 2 init_state)"
    by (simp add: ex_head_def)
  have m: "returns (MultiHeadAttention_forward (heap (snd (projr ex_mha1))) (fst (projr ex_mha1)) ex_x)"
    using t i by (simp add: sh)
  have s: "returns (SingleHeadAttention_forward (heap (snd (projr ex_mha1))) (fst ex_head) ex_x)"
    using t a by (simp add: sh)
  have ov: "output_value_dim (fst ex_head) = 1"
    using t a by (simp add: truthy_or_def)
  from m obtain y where y: "MultiHeadAttention_forward (heap (snd (projr ex_mha1))) (fst (projr ex_mha1)) ex_x = Inr y"
    by (auto simp add: returns_def split: sum.splits)
  from s obtain z where z: "SingleHeadAttention_forward (heap (snd (projr ex_mha1))) (fst ex_head) ex_x = Inr z"
    by (auto simp add: returns_def split: sum.splits)
  have "shape3 y = shape3 ex_x" using t i y by simp
  moreover have "shape3 z = (1, 2, 1)" using t a z ov by (simp add: sh)
  ultimately show ?thesis using m s by (simp add: y z)
qed

text \<open>
  Claim C5 as stated fails for a head with \<open>output_value_dim = 1\<close> on an input of shape
  \<open>(1, 1, 2)\<close>: the output has shape \<open>(1, 1, 1)\<close>.
\<close>

theorem SingleHeadAttention_shape_counterexample:
  "returns (SingleHeadAttention_forward (heap (snd ex_head_narrow)) (fst ex_head_narrow) ex_const) \<and>
   shape3 (projr (SingleHeadAttention_forward (heap (snd ex_head_narrow)) (fst ex_head_narrow) ex_const))
     = (1, 1, 1) \<and>
   shape3 ex_const = (1, 1, 2)"
proof -
  have ok: "sha_ok (fst ex_head_narrow) 2" and d: "tD ex_const = sha_input_dim (fst ex_head_narrow)"
    and ov: "output_value_dim (fst ex_head_narrow) = 1"
    by (simp_all add: ex_head_narrow_def SHA_init_ok ex_const_def truthy_or_def)
  have n: "tN ex_const \<le> 2" by (simp add: ex_const_def)
  from SHA_forward_shape [OF ok d n, of "heap (snd ex_head_narrow)"]
  show ?thesis by (auto simp add: shape3_def ov ex_const_def)
qed

text \<open>
  Claim C9, as amended. \<open>forward\<close> returns only if \<open>num_heads\<close> divides \<open>input_dim\<close>. Every head
  has the output dimension \<open>floor(input_dim / num_heads)\<close>, or \<open>input_dim\<close> if that is 0. When
  \<open>num_heads\<close> does not divide \<open>input_dim\<close>, \<open>forward\<close> raises a shape error for every input;
  for an input of feature size \<open>input_dim\<close> with at most 512 tokens the concatenated head
  outputs have last dimension \<open>num_heads\<close> times that head dimension, which is not
  \<open>input_dim\<close>, and it is \<open>self.out\<close> that raises.
\<close>

theorem MultiHeadAttention_indivisible:
  assumes i: "MultiHeadAttention_init rnd d nh p s = Inr (m, s')"
  shows "(returns (MultiHeadAttention_forward h m x) \<longrightarrow> nh dvd d) \<and>
         list_all (\<lambda>a. output_value_dim a = (if d div nh \<noteq> 0 then d div nh else d)) (heads m) \<and>
         (\<not> nh dvd d \<longrightarrow>
            MultiHeadAttention_forward h m x = Inl ShapeError \<and>
            (tD x = d \<and> tN x \<le> 512 \<longrightarrow>
               (\<exists>c. MultiHeadAttention_concat h m x = Inr c \<and>
                    tD c = nh * (if d div nh \<noteq> 0 then d div nh else d) \<and> tD c \<noteq> d \<and>
                    Linear_forward h (out m) c = Inl ShapeError)))"
proof (intro conjI impI)
  note ok = MHA_init_ok [OF i]
  have pos: "0 < nh" using ok by (simp add: mha_ok_def)
  have tr: "truthy_or (Some (d div nh)) d = (if d div nh \<noteq> 0 then d div nh else d)"
    by (simp add: truthy_or_def)
  show "nh dvd d" if "returns (MultiHeadAttention_forward h m x)"
    using that MHA_forward_error [OF ok, of h x] by (cases "nh dvd d") auto
  show "list_all (\<lambda>a. output_value_dim a = (if d div nh \<noteq> 0 then d div nh else d)) (heads m)"
    using ok unfolding mha_ok_def tr by (auto simp add: list_all_iff head_shape_def)
  show "MultiHeadAttention_forward h m x = Inl ShapeError" if "\<not> nh dvd d"
    using that by (rule MHA_forward_error [OF ok])
  show "\<exists>c. MultiHeadAttention_concat h m x = Inr c \<and>
            tD c = nh * (if d div nh \<noteq> 0 then d div nh else d) \<and> tD c \<noteq> d \<and>
            Linear_forward h (out m) c = Inl ShapeError"
    if nd: "\<not> nh dvd d" and sh: "tD x = d \<and> tN x \<le> 512"
  proof -
    from MHA_concat_shape [OF ok, of x h] sh
    obtain c where c: "MultiHeadAttention_concat h m x = Inr c"
        "out_shape (tB x) (tN x) (nh * truthy_or (Some (d div nh)) d) c"
      by auto
    have dc: "tD c = nh * (if d div nh \<noteq> 0 then d div nh else d)"
      using c(2) unfolding tr by (simp add: out_shape_def)
    have ne: "tD c \<noteq> d"
      using c(2) nd head_dim_divides [OF pos, of d] by (simp add: out_shape_def)
    have "in_features (out m) = d" using ok by (simp add: mha_ok_def)
    then have "Linear_forward h (out m) c = Inl ShapeError"
      using ne by (simp add: Linear_forward_err)
    then show ?thesis using c(1) dc ne by blast
  qed
qed

lemma ex_mha_Inr: "ex_mha = Inr (fst (projr ex_mha), snd (projr ex_mha))"
  using MHA_init_returns [of 3 ex_rnd 2 "1 / 10" init_state]
  unfolding ex_mha_def by (auto intro: projr_Inr_pair)

theorem MultiHeadAttention_indivisible_witness:
  "\<not> (3::nat) dvd 2 \<and>
   MultiHeadAttention_forward (heap (snd (projr ex_mha))) (fst (projr ex_mha)) ex_const
     = Inl ShapeError"
proof -
  have i: "MultiHeadAttention_init ex_rnd 2 3 (1 / 10) init_state
             = Inr (fst (projr ex_mha), snd (projr ex_mha))"
    using ex_mha_Inr by (simp add: ex_mha_def)
  have nd: "\<not> (3::nat) dvd 2" by simp
  show ?thesis
    using MultiHeadAttention_indivisible [OF i, of "heap (snd (projr ex_mha))" ex_const] nd
    by blast
qed

text \<open>
  Claim C9 as stated fails for \<open>input_dim = 2\<close> and \<open>num_heads = 3\<close>: the concatenated head
  outputs have last dimension 6, not \<open>3 * floor(2 / 3) = 0\<close>.
\<close>

theorem MultiHeadAttention_concat_counterexample:
  "returns (MultiHeadAttention_concat (heap (snd (projr ex_mha))) (fst (projr ex_mha)) ex_const) \<and>
   tD (projr (MultiHeadAttention_concat (heap (snd (projr ex_mha))) (fst (projr ex_mha)) ex_const)) = 6 \<and>
   num_heads (fst (projr ex_mha))
     * (mha_input_dim (fst (projr ex_mha)) div num_heads (fst (projr ex_mha))) = 0"
proof -
  have i: "MultiHeadAttention_init ex_rnd 2 3 (1 / 10) init_state
             = Inr (fst (projr ex_mha), snd (projr ex_mha))"
    using ex_mha_Inr by (simp add: ex_mha_def)
  note ok = MHA_init_ok [OF i]
  have sh: "tD ex_const = 2" "tN ex_const \<le> 512" by (simp_all add: ex_const_def)
  from MHA_concat_shape [OF ok sh, of "heap (snd (projr ex_mha))"]
  obtain c where c: "MultiHeadAttention_concat (heap (snd (projr ex_mha))) (fst (projr ex_mha)) ex_const = Inr c"
      "tD c = 3 * truthy_or (Some (2 div 3)) 2"
    by (auto simp add: out_shape_def)
  have "tD c = 6" using c(2) by (simp add: truthy_or_def)
  moreover have "num_heads (fst (projr ex_mha)) = 3" "mha_input_dim (fst (projr ex_mha)) = 2"
    using ok by (simp_all add: mha_ok_def)
  ultimately show ?thesis using c(1) by simp
qed

section \<open>The constructors of MiniGPT\<close>

lemma LayerNorm_init_ok: "norm_ok d (fst (LayerNorm_init d e True s))"
  by (simp add: LayerNorm_init_def norm_ok_def Let_def split_beta new_param_def)

lemma FeedForwardLayer_init_ok: "ff_ok d (fst (FeedForwardLayer_init rnd gelu d fd p s))"
  by (simp add: FeedForwardLayer_init_def ff_ok_def Let_def split_beta)

lemma TransformerLayer_init_ok:
  assumes "TransformerLayer_init rnd gelu d nh fs s = Inr (l, s')"
  shows "layer_ok d nh l"
proof -
  obtain n1 s1 where n1: "LayerNorm_init d (1 / 10 ^ 5) True s = (n1, s1)" by force
  have n1ok: "norm_ok d n1" using LayerNorm_init_ok [of d "1 / 10 ^ 5" s] n1 by simp
  from assms n1 obtain att s2 where
    att: "MultiHeadAttention_init rnd d nh (1 / 10) s1 = Inr (att, s2)"
    by (auto simp add: TransformerLayer_init_def split: sum.splits)
  obtain n2 s3 where n2: "LayerNorm_init d (1 / 10 ^ 5) True s2 = (n2, s3)" by force
  have n2ok: "norm_ok d n2" using LayerNorm_init_ok [of d "1 / 10 ^ 5" s2] n2 by simp
  obtain ff s4 where ff: "FeedForwardLayer_init rnd gelu d None (1 / 10) s3 = (ff, s4)" by force
  have ffok: "ff_ok d ff" using FeedForwardLayer_init_ok [of d rnd gelu None "1 / 10" s3] ff by simp
  have "l = \<lparr>norm1 = n1, attention = att, norm2 = n2, feedforward = ff\<rparr>"
    using assms n1 att n2 ff by (simp add: TransformerLayer_init_def)
  then show ?thesis using n1ok n2ok ffok MHA_init_ok [OF att] by (simp add: layer_ok_def)
qed

lemma TransformerLayer_init_returns:
  "0 < nh \<Longrightarrow> \<exists>l s'. TransformerLayer_init rnd gelu d nh fs s = Inr (l, s')"
proof -
  assume nh: "0 < nh"
  obtain n1 s1 where n1: "LayerNorm_init d (1 / 10 ^ 5) True s = (n1, s1)" by force
  from MHA_init_returns [OF nh, of rnd d "1 / 10" s1]
  obtain att s2 where att: "MultiHeadAttention_init rnd d nh (1 / 10) s1 = Inr (att, s2)" by auto
  show ?thesis using n1 att by (simp add: TransformerLayer_init_def split_beta Let_def)
qed

lemma layers_init_ok:
  "layers_init rnd gelu d nh fs n s = Inr (ls, s') \<Longrightarrow>
   length ls = n \<and> list_all (layer_ok d nh) ls"
proof (induction n arbitrary: s ls s')
  case 0
  then show ?case by simp
next
  case (Suc n)
  from Suc.prems obtain l s1 ls' where
    l: "TransformerLayer_init rnd gelu d nh fs s = Inr (l, s1)"
    and r: "layers_init rnd gelu d nh fs n s1 = Inr (ls', s')" and ls: "ls = l # ls'"
    by (auto split: sum.splits)
  from Suc.IH [OF r] TransformerLayer_init_ok [OF l] ls show ?case by simp
qed

lemma layers_init_returns:
  "0 < nh \<or> n = 0 \<Longrightarrow> \<exists>ls s'. layers_init rnd gelu d nh fs n s = Inr (ls, s')"
proof (induction n arbitrary: s)
  case 0
  then show ?case by simp
next
  case (Suc n)
  then have nh: "0 < nh" by simp
  from TransformerLayer_init_returns [OF nh, of rnd gelu d fs s]
  obtain l s1 where l: "TransformerLayer_init rnd gelu d nh fs s = Inr (l, s1)" by auto
  from Suc.IH [of s1] nh obtain ls s' where "layers_init rnd gelu d nh fs n s1 = Inr (ls, s')"
    by auto
  then show ?case by (simp add: l)
qed

lemma MiniGPT_construct_ok:
  assumes "MiniGPT_construct rnd gelu cfg s = Inr (m, s')"
  shows "gpt_ok cfg m"
proof -
  obtain ve s1 where ve: "Embedding_init rnd (vocab_size cfg) (embed_dim cfg) s = (ve, s1)" by force
  obtain pe s2 where pe: "Embedding_init rnd (context_length cfg) (embed_dim cfg) s1 = (pe, s2)" by force
  from assms ve pe obtain ls s3 where
    ls: "layers_init rnd gelu (embed_dim cfg) (cfg_num_heads cfg) (feedforward_size cfg) (num_layers cfg) s2 = Inr (ls, s3)"
    by (auto simp add: MiniGPT_construct_def split: sum.splits)
  obtain pn s4 where pn: "LayerNorm_init (embed_dim cfg) (1 / 10 ^ 5) True s3 = (pn, s4)" by force
  obtain hd0 s5 where hd0: "Linear_init rnd (embed_dim cfg) (vocab_size cfg) True s4 = (hd0, s5)" by force
  have m: "m = \<lparr>vocab_embedding = ve, positional_embedding = pe,
                 gpt_embed_dropout = embed_dropout cfg, transformer_layers = ls,
                 prehead_norm = pn,
                 head = (if weight_tie cfg then hd0\<lparr>weight := emb_weight ve\<rparr> else hd0),
                 pos = map int [0..<context_length cfg]\<rparr>"
    using assms ve pe ls pn hd0 by (simp add: MiniGPT_construct_def Let_def)
  have e1: "num_embeddings ve = vocab_size cfg" "embedding_dim ve = embed_dim cfg"
    using ve by (auto simp add: Embedding_init_def Let_def split_beta)
  have e2: "num_embeddings pe = context_length cfg" "embedding_dim pe = embed_dim cfg"
    using pe by (auto simp add: Embedding_init_def Let_def split_beta)
  have pnok: "norm_ok (embed_dim cfg) pn"
    using LayerNorm_init_ok [of "embed_dim cfg" "1 / 10 ^ 5" s3] pn by simp
  have hd: "in_features hd0 = embed_dim cfg" "out_features hd0 = vocab_size cfg"
    using Linear_init_sel [of rnd "embed_dim cfg" "vocab_size cfg" True s4] hd0 by simp_all
  show ?thesis
    unfolding gpt_ok_def m using e1 e2 pnok hd layers_init_ok [OF ls] by simp
qed

section \<open>MiniGPT.forward\<close>

lemma LayerNorm_forward_shape:
  assumes "norm_ok d nl" "tD x = d"
  shows "\<exists>y. LayerNorm_forward h nl x = Inr y \<and> out_shape (tB x) (tN x) d y"
  using assms by (auto simp add: LayerNorm_forward_def norm_ok_def out_shape_def)

lemma add3_same_shape:
  assumes "out_shape B N D a" "out_shape B N D c"
  shows "\<exists>y. add3 a c = Inr y \<and> out_shape B N D y"
  using assms by (simp add: add3_def out_shape_def)

lemma FeedForwardLayer_forward_shape:
  assumes "ff_ok d f" "tD x = d"
  shows "\<exists>y. FeedForwardLayer_forward h f x = Inr y \<and> out_shape (tB x) (tN x) d y"
  using assms
  by (simp add: FeedForwardLayer_forward_def ff_ok_def Linear_forward_def map3_def
        dropout_def out_shape_def Let_def)

lemma TransformerLayer_forward_shape:
  assumes ok: "layer_ok d nh l" and dv: "nh dvd d" and x: "out_shape B N d x" and n: "N \<le> 512"
  shows "\<exists>y. TransformerLayer_forward h l x = Inr y \<and> out_shape B N d y"
proof -
  have xs: "tB x = B" "tN x = N" "tD x = d" using x by (simp_all add: out_shape_def)
  from LayerNorm_forward_shape [of d "norm1 l" x h] ok xs
  obtain r1 where r1: "LayerNorm_forward h (norm1 l) x = Inr r1" "out_shape B N d r1"
    by (auto simp add: layer_ok_def)
  have r1s: "tD r1 = d" "tN r1 \<le> 512" "tB r1 = B" "tN r1 = N"
    using r1(2) n by (simp_all add: out_shape_def)
  from MHA_forward_shape [of d nh "attention l" r1 h] ok dv r1s
  obtain r2 where r2: "MultiHeadAttention_forward h (attention l) r1 = Inr r2" "out_shape B N d r2"
    by (auto simp add: layer_ok_def)
  from add3_same_shape [OF r2(2) x]
  obtain cache where c: "add3 r2 x = Inr cache" "out_shape B N d cache" by auto
  have cs: "tD cache = d" "tB cache = B" "tN cache = N" using c(2) by (simp_all add: out_shape_def)
  from LayerNorm_forward_shape [of d "norm2 l" cache h] ok cs
  obtain r3 where r3: "LayerNorm_forward h (norm2 l) cache = Inr r3" "out_shape B N d r3"
    by (auto simp add: layer_ok_def)
  have r3s: "tD r3 = d" "tB r3 = B" "tN r3 = N" using r3(2) by (simp_all add: out_shape_def)
  from FeedForwardLayer_forward_shape [of d "feedforward l" r3 h] ok r3s
  obtain r4 where r4: "FeedForwardLayer_forward h (feedforward l) r3 = Inr r4" "out_shape B N d r4"
    by (auto simp add: layer_ok_def)
  from add3_same_shape [OF r4(2) c(2)]
  obtain y where y: "add3 r4 cache = Inr y" "out_shape B N d y" by auto
  show ?thesis
    by (simp add: TransformerLayer_forward_def r1 r2 c r3 r4 y)
qed

lemma layers_forward_shape:
  assumes "list_all (layer_ok d nh) ls" "ls = [] \<or> (nh dvd d \<and> N \<le> 512)" "out_shape B N d x"
  shows "\<exists>y. layers_forward h ls x = Inr y \<and> out_shape B N d y"
  using assms
proof (induction ls arbitrary: x)
  case Nil
  then show ?case by simp
next
  case (Cons l ls)
  then have c: "nh dvd d" "N \<le> 512" and l: "layer_ok d nh l" by simp_all
  from TransformerLayer_forward_shape [OF l c(1) Cons.prems(3) c(2), of h]
  obtain y where y: "TransformerLayer_forward h l x = Inr y" "out_shape B N d y" by auto
  from Cons.IH [of y] Cons.prems(1) c y(2)
  show ?case by (simp add: y(1))
qed

lemma layers_forward_foldl:
  "layers_forward h ls x = foldl (\<lambda>r l. thenR r (TransformerLayer_forward h l)) (Inr x) ls"
proof (induction ls arbitrary: x)
  case Nil
  then show ?case by simp
next
  case (Cons l ls)
  have err: "foldl (\<lambda>r l. thenR r (TransformerLayer_forward h l)) (Inl e) ks = Inl e" for e ks
    by (induction ks) simp_all
  show ?case
    by (cases "TransformerLayer_forward h l x") (simp_all add: Cons.IH err)
qed

lemma MiniGPT_forward_with_embed:
  "MiniGPT_forward_with drp h m inp =
     thenR (MiniGPT_embed h m inp) (\<lambda>r.
     thenR (layers_forward h (transformer_layers m) (drp (gpt_embed_dropout m) r)) (\<lambda>r.
     thenR (LayerNorm_forward h (prehead_norm m) r) (\<lambda>r.
       Linear_forward h (head m) r)))"
  by (simp add: MiniGPT_forward_with_def MiniGPT_embed_def Let_def thenR_def split: sum.splits)

lemma MiniGPT_forward_embed:
  "MiniGPT_forward h m inp =
     thenR (MiniGPT_embed h m inp) (\<lambda>r.
     thenR (layers_forward h (transformer_layers m) (dropout (gpt_embed_dropout m) r)) (\<lambda>r.
     thenR (LayerNorm_forward h (prehead_norm m) r) (\<lambda>r.
       Linear_forward h (head m) r)))"
  by (simp add: MiniGPT_forward_def MiniGPT_forward_with_embed)

lemma bcast_dim_one [simp]: "bcast_dim B 1 = Some B" "bcast_dim B (Suc 0) = Some B"
  by (auto simp add: bcast_dim_def)

lemma pos_in_range: "list_all (in_range C) (map int [0..<C])"
  by (simp add: list_all_iff in_range_def)

lemma at3_unsqueeze0 [simp]: "at3 (unsqueeze0 t) 0 i k = at2 t i k"
  by (simp add: at3_def at2_def unsqueeze0_def)

lemma unsqueeze0_sel [simp]:
  "tB (unsqueeze0 t) = 1" "tN (unsqueeze0 t) = mR t" "tD (unsqueeze0 t) = mC t"
  by (simp_all add: unsqueeze0_def)

text \<open>The positional rows that reach the addition, for a sequence of length \<open>S\<close>.\<close>

lemma positional_slice:
  assumes ok: "gpt_ok cfg m"
  shows "Embedding_forward1 h (positional_embedding m) (pos m)
           = Inr (tabulate2 (context_length cfg) (embed_dim cfg)
                    (\<lambda>i k. h (emb_weight (positional_embedding m)) ! nat (int i) ! k))"
  using ok pos_in_range [of "context_length cfg"]
  by (simp add: Embedding_forward1_def gpt_ok_def tabulate2_def)

lemma bidx_one [simp]: "bidx 1 b = 0" "bidx (Suc 0) b = 0"
  by (simp_all add: bidx_def)

lemma Embedding_forward_eq:
  assumes "gpt_ok cfg m" "list_all (list_all (in_range (vocab_size cfg))) (toks x)"
  shows "Embedding_forward h (vocab_embedding m) x =
     Inr (tabulate3 (kB x) (kS x) (embed_dim cfg)
            (\<lambda>b i k. h (emb_weight (vocab_embedding m)) ! nat (toks x ! b ! i) ! k))"
  using assms by (simp add: Embedding_forward_def gpt_ok_def)

lemma Embedding_forward_dims:
  assumes "gpt_ok cfg m" "Embedding_forward h (vocab_embedding m) x = Inr e"
  shows "tB e = kB x" "tN e = kS x" "tD e = embed_dim cfg" "wf3 e"
  using assms by (auto simp add: Embedding_forward_def gpt_ok_def split: if_splits)

lemma MiniGPT_embed_add:
  assumes ok: "gpt_ok cfg m" and e: "Embedding_forward h (vocab_embedding m) (unsqueeze_if_1d inp) = Inr e"
  shows "MiniGPT_embed h m inp =
     add3 e (unsqueeze0 (tabulate2 (min (tN e) (context_length cfg)) (embed_dim cfg)
                (\<lambda>i k. h (emb_weight (positional_embedding m)) ! i ! k)))"
proof -
  have "slice2 (tabulate2 (context_length cfg) (embed_dim cfg)
                    (\<lambda>i k. h (emb_weight (positional_embedding m)) ! nat (int i) ! k))
           (tN e) (embed_dim cfg)
        = tabulate2 (min (tN e) (context_length cfg)) (embed_dim cfg)
                (\<lambda>i k. h (emb_weight (positional_embedding m)) ! i ! k)"
    by (simp add: slice2_def tabulate2_def at2_def)
  then show ?thesis
    by (simp add: MiniGPT_embed_def Let_def e positional_slice [OF ok])
qed

lemma MiniGPT_embed_within:
  assumes ok: "gpt_ok cfg m" and s: "kS (unsqueeze_if_1d inp) \<le> context_length cfg"
  shows "MiniGPT_embed h m inp =
     thenR (Embedding_forward h (vocab_embedding m) (unsqueeze_if_1d inp))
       (\<lambda>e. Inr (add_position_rows h m e))"
proof (cases "Embedding_forward h (vocab_embedding m) (unsqueeze_if_1d inp)")
  case (Inl err)
  then show ?thesis by (simp add: MiniGPT_embed_def Let_def)
next
  case (Inr e)
  note d = Embedding_forward_dims [OF ok Inr]
  have mn: "min (tN e) (context_length cfg) = tN e" using s d by simp
  show ?thesis
    unfolding MiniGPT_embed_add [OF ok Inr] Inr thenR_simps mn
    apply (simp add: add3_def d add_position_rows_def)
    apply (rule tabulate3_cong)
    apply simp
    done
qed

lemma MiniGPT_embed_beyond:
  assumes ok: "gpt_ok cfg m" and e: "Embedding_forward h (vocab_embedding m) (unsqueeze_if_1d inp) = Inr e"
    and s: "context_length cfg < tN e"
  shows "(context_length cfg \<noteq> 1 \<and> \<not> (context_length cfg = 0 \<and> tN e = 1)
            \<longrightarrow> MiniGPT_embed h m inp = Inl ShapeError)"
    and "context_length cfg = 1 \<longrightarrow>
           MiniGPT_embed h m inp = Inr (tabulate3 (tB e) (tN e) (tD e)
              (\<lambda>b i k. at3 e b i k + h (emb_weight (positional_embedding m)) ! 0 ! k))"
    and "context_length cfg = 0 \<and> tN e = 1 \<longrightarrow>
           (\<exists>y. MiniGPT_embed h m inp = Inr y \<and> out_shape (tB e) 0 (tD e) y)"
proof -
  note d = Embedding_forward_dims [OF ok e]
  have mn: "min (tN e) (context_length cfg) = context_length cfg" using s by simp
  show "(context_length cfg \<noteq> 1 \<and> \<not> (context_length cfg = 0 \<and> tN e = 1)
            \<longrightarrow> MiniGPT_embed h m inp = Inl ShapeError)"
    unfolding MiniGPT_embed_add [OF ok e] mn using s
    by (auto simp add: add3_def bcast_dim_def d)
  show "context_length cfg = 1 \<longrightarrow>
           MiniGPT_embed h m inp = Inr (tabulate3 (tB e) (tN e) (tD e)
              (\<lambda>b i k. at3 e b i k + h (emb_weight (positional_embedding m)) ! 0 ! k))"
  proof
    assume c: "context_length cfg = 1"
    have b: "bcast_dim (tN e) (Suc 0) = Some (tN e)" by simp
    have mn1: "min (tN e) (Suc 0) = Suc 0" using s c by simp
    show "MiniGPT_embed h m inp = Inr (tabulate3 (tB e) (tN e) (tD e)
              (\<lambda>b i k. at3 e b i k + h (emb_weight (positional_embedding m)) ! 0 ! k))"
      unfolding MiniGPT_embed_add [OF ok e]
      apply (simp add: add3_def d(3) b c mn1)
      apply (rule tabulate3_cong)
      apply simp
      done
  qed
  show "context_length cfg = 0 \<and> tN e = 1 \<longrightarrow>
           (\<exists>y. MiniGPT_embed h m inp = Inr y \<and> out_shape (tB e) 0 (tD e) y)"
    unfolding MiniGPT_embed_add [OF ok e] mn
    by (auto simp add: add3_def bcast_dim_def d(3) out_shape_def)
qed

lemma MiniGPT_forward_returns:
  assumes ok: "gpt_ok cfg m" and r: "MiniGPT_embed h m inp = Inr r"
    and sh: "out_shape B N (embed_dim cfg) r"
    and ls: "num_layers cfg = 0 \<or> (cfg_num_heads cfg dvd embed_dim cfg \<and> N \<le> 512)"
  shows "\<exists>y. MiniGPT_forward h m inp = Inr y \<and> out_shape B N (vocab_size cfg) y"
proof -
  have l: "list_all (layer_ok (embed_dim cfg) (cfg_num_heads cfg)) (transformer_layers m)"
    and len: "length (transformer_layers m) = num_layers cfg"
    and pn: "norm_ok (embed_dim cfg) (prehead_norm m)"
    and hd: "in_features (head m) = embed_dim cfg" "out_features (head m) = vocab_size cfg"
    using ok by (simp_all add: gpt_ok_def)
  have c: "transformer_layers m = [] \<or> (cfg_num_heads cfg dvd embed_dim cfg \<and> N \<le> 512)"
    using ls len by auto
  have sh': "out_shape B N (embed_dim cfg) (dropout (gpt_embed_dropout m) r)"
    using sh by (simp add: dropout_def)
  from layers_forward_shape [OF l c sh', of h]
  obtain y1 where y1: "layers_forward h (transformer_layers m) (dropout (gpt_embed_dropout m) r) = Inr y1"
      "out_shape B N (embed_dim cfg) y1" by auto
  have y1s: "tD y1 = embed_dim cfg" "tB y1 = B" "tN y1 = N" using y1(2) by (simp_all add: out_shape_def)
  from LayerNorm_forward_shape [OF pn y1s(1), of h]
  obtain y2 where y2: "LayerNorm_forward h (prehead_norm m) y1 = Inr y2"
      "out_shape B N (embed_dim cfg) y2" using y1s by auto
  have "tD y2 = in_features (head m)" using y2(2) hd by (simp add: out_shape_def)
  then have "Linear_forward h (head m) y2
               = Inr (tabulate3 (tB y2) (tN y2) (out_features (head m)) (Linear_out h (head m) y2))"
    by (rule Linear_forward_eq)
  then show ?thesis
    using y2 hd by (simp add: MiniGPT_forward_embed r y1(1) out_shape_def)
qed

lemma init_weights_returns: "\<exists>s'. init_weights rnd md s = Inr s'"
  by (cases md) (simp_all add: init_weights_def Linear_get_name_def Let_def split: option.splits)

lemma apply_init_weights_returns: "\<exists>s'. apply_init_weights rnd mds s = Inr s'"
proof (induction mds arbitrary: s)
  case Nil
  then show ?case by simp
next
  case (Cons md mds)
  obtain s1 where "init_weights rnd md s = Inr s1" using init_weights_returns by blast
  then show ?case using Cons.IH [of s1] by simp
qed

lemma MiniGPT_init_construct:
  "MiniGPT_init rnd gelu cfg s = Inr (m, s') \<Longrightarrow>
   \<exists>s1. MiniGPT_construct rnd gelu cfg s = Inr (m, s1) \<and>
         apply_init_weights rnd (MiniGPT_modules m) s1 = Inr s'"
  by (auto simp add: MiniGPT_init_def thenR_def split: sum.splits)

lemma MiniGPT_init_ok: "MiniGPT_init rnd gelu cfg s = Inr (m, s') \<Longrightarrow> gpt_ok cfg m"
  using MiniGPT_init_construct MiniGPT_construct_ok by blast

lemma MiniGPT_construct_returns:
  assumes "0 < cfg_num_heads cfg \<or> num_layers cfg = 0"
  shows "\<exists>m s'. MiniGPT_construct rnd gelu cfg s = Inr (m, s')"
proof -
  obtain ve s1 where ve: "Embedding_init rnd (vocab_size cfg) (embed_dim cfg) s = (ve, s1)" by force
  obtain pe s2 where pe: "Embedding_init rnd (context_length cfg) (embed_dim cfg) s1 = (pe, s2)" by force
  from layers_init_returns [OF assms, of rnd gelu "embed_dim cfg" "feedforward_size cfg" s2]
  obtain ls s3 where
    ls: "layers_init rnd gelu (embed_dim cfg) (cfg_num_heads cfg) (feedforward_size cfg) (num_layers cfg) s2 = Inr (ls, s3)"
    by auto
  show ?thesis using ve pe ls by (simp add: MiniGPT_construct_def Let_def split_beta)
qed

lemma MiniGPT_init_returns:
  assumes "0 < cfg_num_heads cfg \<or> num_layers cfg = 0"
  shows "\<exists>m s'. MiniGPT_init rnd gelu cfg s = Inr (m, s')"
proof -
  from MiniGPT_construct_returns [OF assms, of rnd gelu s]
  obtain m s1 where c: "MiniGPT_construct rnd gelu cfg s = Inr (m, s1)" by auto
  obtain s2 where "apply_init_weights rnd (MiniGPT_modules m) s1 = Inr s2"
    using apply_init_weights_returns by blast
  then show ?thesis by (simp add: MiniGPT_init_def c)
qed

lemma ex_gpt_Inr: "ex_gpt = Inr (fst (projr ex_gpt), snd (projr ex_gpt))"
  using MiniGPT_init_returns [of ex_cfg ex_rnd ex_act init_state]
  unfolding ex_gpt_def by (auto simp add: ex_cfg_def intro: projr_Inr_pair)

lemma ex_gpt_init:
  "MiniGPT_init ex_rnd ex_act ex_cfg init_state = Inr (fst (projr ex_gpt), snd (projr ex_gpt))"
  using ex_gpt_Inr by (simp add: ex_gpt_def)

lemma ex_gpt2_init:
  "MiniGPT_init ex_rnd ex_act (ex_cfg\<lparr>context_length := 2\<rparr>) init_state
     = Inr (fst (projr ex_gpt2), snd (projr ex_gpt2))"
  using MiniGPT_init_returns [of "ex_cfg\<lparr>context_length := 2\<rparr>" ex_rnd ex_act init_state]
  unfolding ex_gpt2_def by (auto simp add: ex_cfg_def)

lemma thenR_assoc: "thenR (thenR r f) g = thenR r (\<lambda>y. thenR (f y) g)"
  by (simp add: thenR_def split: sum.splits)

lemma spec_add_positions_within:
  assumes ok: "gpt_ok cfg m" and n: "tN t \<le> context_length cfg" and d: "tD t = embed_dim cfg"
  shows "spec_add_positions h m t = Inr (add_position_rows h m t)"
proof -
  have r: "list_all (in_range (num_embeddings (positional_embedding m))) (map int [0..<tN t])"
    using ok n by (simp add: gpt_ok_def list_all_iff in_range_def)
  have e: "embedding_dim (positional_embedding m) = tD t" using ok d by (simp add: gpt_ok_def)
  show ?thesis
    unfolding spec_add_positions_def Embedding_forward1_def add_position_rows_def
    apply (simp add: r e)
    apply (rule tabulate3_cong)
    apply simp
    done
qed

lemma spec_add_positions_beyond:
  assumes ok: "gpt_ok cfg m" and n: "context_length cfg < tN t"
  shows "spec_add_positions h m t = Inl IndexError"
proof -
  have "int (context_length cfg) \<in> set (map int [0..<tN t])" using n by simp
  moreover have "\<not> in_range (num_embeddings (positional_embedding m)) (int (context_length cfg))"
    using ok by (simp add: gpt_ok_def in_range_def)
  ultimately have "\<not> list_all (in_range (num_embeddings (positional_embedding m))) (map int [0..<tN t])"
    unfolding list_all_iff by blast
  then show ?thesis by (simp add: spec_add_positions_def Embedding_forward1_def)
qed

text \<open>
  Claim C3, as amended. With the sequence no longer than \<open>context_length\<close>,
  \<open>MiniGPT.forward\<close> computes its logits as the composition, in this order, of the token
  embedding lookup, the addition of the positional embeddings of the positions
  \<open>0..seq_len-1\<close>, the embedding dropout (whatever function the dropout module applies; the
  identity in eval mode), the transformer layers in sequence, the final norm and the linear
  head; a 1-D input is first given a batch axis of size 1.
\<close>

theorem MiniGPT_forward_pipeline:
  assumes "MiniGPT_init rnd gelu cfg s = Inr (m, s')"
    and "kS (unsqueeze_if_1d inp) \<le> context_length cfg"
  shows "MiniGPT_forward_with drp h m inp = spec_pipeline drp h m (unsqueeze_if_1d inp) \<and>
         MiniGPT_forward h m inp = spec_pipeline dropout h m (unsqueeze_if_1d inp)"
proof -
  note ok = MiniGPT_init_ok [OF assms(1)]
  have w: "MiniGPT_forward_with f h m inp = spec_pipeline f h m (unsqueeze_if_1d inp)" for f
  proof (cases "Embedding_forward h (vocab_embedding m) (unsqueeze_if_1d inp)")
    case (Inl err)
    then show ?thesis
      by (simp add: MiniGPT_forward_with_embed MiniGPT_embed_within [OF ok assms(2)]
            spec_pipeline_def)
  next
    case (Inr e)
    note d = Embedding_forward_dims [OF ok Inr]
    have n: "tN e \<le> context_length cfg" using d assms(2) by simp
    have p: "spec_add_positions h m e = Inr (add_position_rows h m e)"
      by (rule spec_add_positions_within [OF ok n d(3)])
    show ?thesis
      by (simp add: MiniGPT_forward_with_embed MiniGPT_embed_within [OF ok assms(2)]
            spec_pipeline_def Inr p spec_layers_def layers_forward_foldl thenR_assoc)
  qed
  show ?thesis using w by (simp add: MiniGPT_forward_def)
qed

theorem MiniGPT_forward_pipeline_witness:
  "kS (unsqueeze_if_1d (Tok1 [0, 0])) \<le> context_length (ex_cfg\<lparr>context_length := 2\<rparr>) \<and>
   MiniGPT_forward (heap (snd (projr ex_gpt2))) (fst (projr ex_gpt2)) (Tok1 [0, 0])
     = spec_pipeline dropout (heap (snd (projr ex_gpt2))) (fst (projr ex_gpt2))
         (unsqueeze_if_1d (Tok1 [0, 0]))"
  using MiniGPT_forward_pipeline [OF ex_gpt2_init, of "Tok1 [0, 0]" dropout "heap (snd (projr ex_gpt2))"]
  by (simp add: unsqueeze_if_1d_def unsqueeze0_tokens_def ex_cfg_def)

text \<open>
  Claim C3 as stated fails beyond the table. With \<open>context_length = 1\<close> and the two tokens
  \<open>[0, 0]\<close>, position 1 has no positional embedding and the pipeline of the claim raises;
  \<open>forward\<close> returns logits, having added the row of position 0 at position 1.
\<close>

theorem MiniGPT_positions_counterexample:
  "context_length ex_cfg < kS (unsqueeze_if_1d (Tok1 [0, 0])) \<and>
   returns (MiniGPT_forward (heap (snd (projr ex_gpt))) (fst (projr ex_gpt)) (Tok1 [0, 0])) \<and>
   spec_pipeline dropout (heap (snd (projr ex_gpt))) (fst (projr ex_gpt))
       (unsqueeze_if_1d (Tok1 [0, 0])) = Inl IndexError \<and>
   MiniGPT_forward (heap (snd (projr ex_gpt))) (fst (projr ex_gpt)) (Tok1 [0, 0])
     \<noteq> spec_pipeline dropout (heap (snd (projr ex_gpt))) (fst (projr ex_gpt))
         (unsqueeze_if_1d (Tok1 [0, 0])) \<and>
   at3 (projr (MiniGPT_embed (heap (snd (projr ex_gpt))) (fst (projr ex_gpt)) (Tok1 [0, 0]))) 0 1 0
     = at3 (projr (Embedding_forward (heap (snd (projr ex_gpt)))
              (vocab_embedding (fst (projr ex_gpt))) (unsqueeze_if_1d (Tok1 [0, 0])))) 0 1 0
       + heap (snd (projr ex_gpt)) (emb_weight (positional_embedding (fst (projr ex_gpt)))) ! 0 ! 0"
proof -
  let ?h = "heap (snd (projr ex_gpt))" and ?m = "fst (projr ex_gpt)"
  let ?x = "unsqueeze_if_1d (Tok1 [0, 0])"
  note ok = MiniGPT_init_ok [OF ex_gpt_init]
  have ux: "kB ?x = 1" "kS ?x = 2"
    by (simp_all add: unsqueeze_if_1d_def unsqueeze0_tokens_def)
  have valid: "list_all (list_all (in_range (vocab_size ex_cfg))) (toks ?x)"
    by (simp add: unsqueeze_if_1d_def unsqueeze0_tokens_def ex_cfg_def in_range_def)
  let ?e = "tabulate3 (kB ?x) (kS ?x) (embed_dim ex_cfg)
             (\<lambda>b i k. ?h (emb_weight (vocab_embedding ?m)) ! nat (toks ?x ! b ! i) ! k)"
  have e: "Embedding_forward ?h (vocab_embedding ?m) ?x = Inr ?e"
    by (rule Embedding_forward_eq [OF ok valid])
  have l: "context_length ex_cfg < tN ?e" by (simp add: ux ex_cfg_def)
  have c: "context_length ex_cfg = 1" by (simp add: ex_cfg_def)
  let ?y = "tabulate3 (tB ?e) (tN ?e) (tD ?e)
              (\<lambda>b i k. at3 ?e b i k + ?h (emb_weight (positional_embedding ?m)) ! 0 ! k)"
  have y: "MiniGPT_embed ?h ?m (Tok1 [0, 0]) = Inr ?y"
    using MiniGPT_embed_beyond(2) [OF ok e l] c by simp
  have sh: "out_shape 1 2 (embed_dim ex_cfg) ?y" by (simp add: out_shape_def ux)
  have ls: "num_layers ex_cfg = 0 \<or> (cfg_num_heads ex_cfg dvd embed_dim ex_cfg \<and> (2::nat) \<le> 512)"
    by (simp add: ex_cfg_def)
  from MiniGPT_forward_returns [OF ok y sh ls]
  obtain z where z: "MiniGPT_forward ?h ?m (Tok1 [0, 0]) = Inr z" by auto
  have p: "spec_add_positions ?h ?m ?e = Inl IndexError"
    by (rule spec_add_positions_beyond [OF ok l])
  have sp: "spec_pipeline dropout ?h ?m ?x = Inl IndexError"
    by (simp add: spec_pipeline_def e p)
  have at: "at3 ?y 0 1 0 = at3 ?e 0 1 0 + ?h (emb_weight (positional_embedding ?m)) ! 0 ! 0"
    by (simp add: ux ex_cfg_def)
  show ?thesis
    unfolding sp z y e using at by (simp add: ux ex_cfg_def)
qed

text \<open>
  Claim C10, as amended. The positional table has \<open>context_length\<close> rows, and \<open>forward\<close> adds
  the slice of its first \<open>seq_len\<close> rows to the token embeddings. For an input of valid
  token ids with \<open>seq_len > context_length\<close> the addition raises a shape error, and with it
  \<open>forward\<close>, unless the two sizes broadcast: with \<open>context_length = 1\<close> the single
  positional row is added at every position and the addition returns, and \<open>forward\<close>
  returns logits when the layers accept the sequence; with \<open>context_length = 0\<close> and
  \<open>seq_len = 1\<close> the sum has no positions.
\<close>

theorem MiniGPT_forward_beyond_context:
  assumes init: "MiniGPT_init rnd gelu cfg s = Inr (m, s')"
    and valid: "list_all (list_all (in_range (vocab_size cfg))) (toks (unsqueeze_if_1d inp))"
    and long: "context_length cfg < kS (unsqueeze_if_1d inp)"
  shows "(context_length cfg \<noteq> 1 \<and> \<not> (context_length cfg = 0 \<and> kS (unsqueeze_if_1d inp) = 1) \<longrightarrow>
            MiniGPT_embed h m inp = Inl ShapeError \<and> MiniGPT_forward h m inp = Inl ShapeError) \<and>
         (context_length cfg = 1 \<longrightarrow>
            (\<exists>e y. Embedding_forward h (vocab_embedding m) (unsqueeze_if_1d inp) = Inr e \<and>
                   MiniGPT_embed h m inp = Inr y \<and> shape3 y = shape3 e \<and>
                   (\<forall>b<tB e. \<forall>i<tN e. \<forall>k<tD e.
                      at3 y b i k = at3 e b i k + h (emb_weight (positional_embedding m)) ! 0 ! k)) \<and>
            (num_layers cfg = 0 \<or>
               (cfg_num_heads cfg dvd embed_dim cfg \<and> kS (unsqueeze_if_1d inp) \<le> 512) \<longrightarrow>
             returns (MiniGPT_forward h m inp))) \<and>
         (context_length cfg = 0 \<and> kS (unsqueeze_if_1d inp) = 1 \<longrightarrow>
            (\<exists>y. MiniGPT_embed h m inp = Inr y \<and> tN y = 0))"
proof -
  note ok = MiniGPT_init_ok [OF init]
  let ?e = "tabulate3 (kB (unsqueeze_if_1d inp)) (kS (unsqueeze_if_1d inp)) (embed_dim cfg)
              (\<lambda>b i k. h (emb_weight (vocab_embedding m)) ! nat (toks (unsqueeze_if_1d inp) ! b ! i) ! k)"
  have e: "Embedding_forward h (vocab_embedding m) (unsqueeze_if_1d inp) = Inr ?e"
    by (rule Embedding_forward_eq [OF ok valid])
  have l: "context_length cfg < tN ?e" using long by simp
  note b = MiniGPT_embed_beyond [OF ok e l]
  have p1: "MiniGPT_embed h m inp = Inl ShapeError \<and> MiniGPT_forward h m inp = Inl ShapeError"
    if "context_length cfg \<noteq> 1 \<and> \<not> (context_length cfg = 0 \<and> kS (unsqueeze_if_1d inp) = 1)"
  proof -
    have "MiniGPT_embed h m inp = Inl ShapeError" using b(1) that by auto
    then show ?thesis by (simp add: MiniGPT_forward_embed)
  qed
  have p2: "\<exists>e y. Embedding_forward h (vocab_embedding m) (unsqueeze_if_1d inp) = Inr e \<and>
                   MiniGPT_embed h m inp = Inr y \<and> shape3 y = shape3 e \<and>
                   (\<forall>b<tB e. \<forall>i<tN e. \<forall>k<tD e.
                      at3 y b i k = at3 e b i k + h (emb_weight (positional_embedding m)) ! 0 ! k)"
    if c: "context_length cfg = 1"
    using b(2) c e by (simp add: shape3_def)
  have p3: "returns (MiniGPT_forward h m inp)"
    if c: "context_length cfg = 1"
      and ls: "num_layers cfg = 0 \<or>
               (cfg_num_heads cfg dvd embed_dim cfg \<and> kS (unsqueeze_if_1d inp) \<le> 512)"
  proof -
    let ?y = "tabulate3 (tB ?e) (tN ?e) (tD ?e)
              (\<lambda>b i k. at3 ?e b i k + h (emb_weight (positional_embedding m)) ! 0 ! k)"
    have y: "MiniGPT_embed h m inp = Inr ?y" using b(2) c by simp
    have sh: "out_shape (kB (unsqueeze_if_1d inp)) (kS (unsqueeze_if_1d inp)) (embed_dim cfg) ?y"
      by (simp add: out_shape_def)
    from MiniGPT_forward_returns [OF ok y sh ls] show ?thesis by auto
  qed
  have p4: "\<exists>y. MiniGPT_embed h m inp = Inr y \<and> tN y = 0"
    if "context_length cfg = 0 \<and> kS (unsqueeze_if_1d inp) = 1"
    using b(3) that by (auto simp add: out_shape_def)
  show ?thesis using p1 p2 p3 p4 by blast
qed

theorem MiniGPT_forward_beyond_context_witness:
  "MiniGPT_forward (heap (snd (projr ex_gpt2))) (fst (projr ex_gpt2)) (Tok1 [0, 0, 0])
     = Inl ShapeError \<and>
   returns (MiniGPT_forward (heap (snd (projr ex_gpt))) (fst (projr ex_gpt))
     (Tok2 \<lparr>kB = 1, kS = 2, toks = [[0, 0]]\<rparr>))"
proof -
  have "returns (MiniGPT_forward (heap (snd (projr ex_gpt))) (fst (projr ex_gpt))
     (Tok2 \<lparr>kB = 1, kS = 2, toks = [[0, 0]]\<rparr>))"
    using MiniGPT_forward_beyond_context [OF ex_gpt_init,
        of "Tok2 \<lparr>kB = 1, kS = 2, toks = [[0, 0]]\<rparr>" "heap (snd (projr ex_gpt))"]
    by (simp add: unsqueeze_if_1d_def ex_cfg_def in_range_def)
  moreover have "MiniGPT_forward (heap (snd (projr ex_gpt2))) (fst (projr ex_gpt2)) (Tok1 [0, 0, 0])
     = Inl ShapeError"
    using MiniGPT_forward_beyond_context [OF ex_gpt2_init,
        of "Tok1 [0, 0, 0]" "heap (snd (projr ex_gpt2))"]
    by (simp add: unsqueeze_if_1d_def unsqueeze0_tokens_def ex_cfg_def in_range_def)
  ultimately show ?thesis by simp
qed

text \<open>
  Claim C10 as stated fails for \<open>context_length = 1\<close>: on the two tokens \<open>[0, 0]\<close> the
  addition broadcasts the one positional row and \<open>forward\<close> returns logits of shape
  \<open>(1, 2, vocab_size)\<close>.
\<close>

theorem MiniGPT_context_length_counterexample:
  "context_length ex_cfg < length [0::int, 0] \<and>
   returns (MiniGPT_embed (heap (snd (projr ex_gpt))) (fst (projr ex_gpt)) (Tok1 [0, 0])) \<and>
   returns (MiniGPT_forward (heap (snd (projr ex_gpt))) (fst (projr ex_gpt)) (Tok1 [0, 0])) \<and>
   shape3 (projr (MiniGPT_forward (heap (snd (projr ex_gpt))) (fst (projr ex_gpt)) (Tok1 [0, 0])))
     = (1, 2, 1)"
proof -
  let ?h = "heap (snd (projr ex_gpt))" and ?m = "fst (projr ex_gpt)"
  note ok = MiniGPT_init_ok [OF ex_gpt_init]
  have valid: "list_all (list_all (in_range (vocab_size ex_cfg))) (toks (unsqueeze_if_1d (Tok1 [0, 0])))"
    by (simp add: unsqueeze_if_1d_def unsqueeze0_tokens_def ex_cfg_def in_range_def)
  note e = Embedding_forward_eq [OF ok valid, of ?h]
  have l: "context_length ex_cfg < tN (tabulate3 (kB (unsqueeze_if_1d (Tok1 [0, 0])))
             (kS (unsqueeze_if_1d (Tok1 [0, 0]))) (embed_dim ex_cfg)
             (\<lambda>b i k. ?h (emb_weight (vocab_embedding ?m)) ! nat (toks (unsqueeze_if_1d (Tok1 [0, 0])) ! b ! i) ! k))"
    by (simp add: unsqueeze_if_1d_def unsqueeze0_tokens_def ex_cfg_def)
  have c: "context_length ex_cfg = 1" by (simp add: ex_cfg_def)
  from MiniGPT_embed_beyond(2) [OF ok e l] c
  obtain y where y: "MiniGPT_embed ?h ?m (Tok1 [0, 0]) = Inr y"
    and sh: "out_shape 1 2 (embed_dim ex_cfg) y"
    by (simp add: out_shape_def unsqueeze_if_1d_def unsqueeze0_tokens_def)
  have ls: "num_layers ex_cfg = 0 \<or> (cfg_num_heads ex_cfg dvd embed_dim ex_cfg \<and> (2::nat) \<le> 512)"
    by (simp add: ex_cfg_def)
  from MiniGPT_forward_returns [OF ok y sh ls]
  obtain z where z: "MiniGPT_forward ?h ?m (Tok1 [0, 0]) = Inr z" "out_shape 1 2 (vocab_size ex_cfg) z"
    by auto
  show ?thesis using y z by (simp add: shape3_def out_shape_def ex_cfg_def)
qed

section \<open>Weight tying\<close>

lemma MiniGPT_construct_tied:
  assumes "MiniGPT_construct rnd gelu cfg s = Inr (m, s')" "weight_tie cfg"
  shows "weight (head m) = emb_weight (vocab_embedding m)"
  using assms
  by (auto simp add: MiniGPT_construct_def Let_def split_beta split: sum.splits)

lemma new_param_addr: "fst (new_param v s) = next_addr s" "next_addr (snd (new_param v s)) = Suc (next_addr s)"
  by (simp_all add: new_param_def)

lemma rand_tensor_addr: "next_addr (snd (rand_tensor rnd r c s)) = next_addr s"
  by (simp add: rand_tensor_def)

lemma Linear_init_addr:
  "weight (fst (Linear_init rnd i o_f b s)) = next_addr s"
  "next_addr s < next_addr (snd (Linear_init rnd i o_f b s))"
  by (simp_all add: Linear_init_def Let_def split_beta new_param_addr rand_tensor_addr)

lemma Embedding_init_addr:
  "emb_weight (fst (Embedding_init rnd n d s)) = next_addr s"
  "next_addr s < next_addr (snd (Embedding_init rnd n d s))"
  by (simp_all add: Embedding_init_def Let_def split_beta new_param_addr rand_tensor_addr)

lemma LayerNorm_init_addr: "next_addr s \<le> next_addr (snd (LayerNorm_init n e aff s))"
  by (simp add: LayerNorm_init_def Let_def split_beta new_param_addr)

lemma SingleHeadAttention_init_addr:
  "next_addr s \<le> next_addr (snd (SingleHeadAttention_init rnd d okq ov p L s))"
proof -
  let ?s1 = "snd (Linear_init rnd d (truthy_or okq d) False s)"
  let ?s2 = "snd (Linear_init rnd d (truthy_or okq d) False ?s1)"
  let ?s3 = "snd (Linear_init rnd d (truthy_or ov d) False ?s2)"
  have "next_addr s < next_addr ?s1" "next_addr ?s1 < next_addr ?s2" "next_addr ?s2 < next_addr ?s3"
    by (rule Linear_init_addr)+
  moreover have "snd (SingleHeadAttention_init rnd d okq ov p L s) = ?s3"
    by (simp add: SingleHeadAttention_init_def Let_def split_beta)
  ultimately show ?thesis by simp
qed

lemma heads_init_addr: "next_addr s \<le> next_addr (snd (heads_init rnd d hdim n s))"
proof (induction n arbitrary: s)
  case 0
  then show ?case by simp
next
  case (Suc n)
  have "next_addr s \<le> next_addr (snd (SingleHeadAttention_init rnd d (Some hdim) (Some hdim) (1 / 10) 512 s))"
    by (rule SingleHeadAttention_init_addr)
  also have "\<dots> \<le> next_addr (snd (heads_init rnd d hdim n
                (snd (SingleHeadAttention_init rnd d (Some hdim) (Some hdim) (1 / 10) 512 s))))"
    by (rule Suc.IH)
  finally show ?case by (simp add: split_beta Let_def)
qed

lemma MultiHeadAttention_init_addr:
  assumes "MultiHeadAttention_init rnd d nh p s = Inr (m, s')"
  shows "next_addr s \<le> next_addr s'"
proof -
  let ?s1 = "snd (heads_init rnd d (d div nh) nh s)"
  have "s' = snd (Linear_init rnd d d True ?s1)"
    using assms by (auto simp add: MultiHeadAttention_init_def Let_def split_beta split: if_splits)
  moreover have "next_addr s \<le> next_addr ?s1" by (rule heads_init_addr)
  moreover have "next_addr ?s1 < next_addr (snd (Linear_init rnd d d True ?s1))"
    by (rule Linear_init_addr)
  ultimately show ?thesis by simp
qed

lemma FeedForwardLayer_init_addr:
  "next_addr s \<le> next_addr (snd (FeedForwardLayer_init rnd gelu d fd p s))"
proof -
  let ?fd = "case fd of None \<Rightarrow> d * 4 | Some k \<Rightarrow> k"
  let ?s1 = "snd (Linear_init rnd d ?fd True s)"
  have "next_addr s < next_addr ?s1" "next_addr ?s1 < next_addr (snd (Linear_init rnd ?fd d True ?s1))"
    by (rule Linear_init_addr)+
  moreover have "snd (FeedForwardLayer_init rnd gelu d fd p s) = snd (Linear_init rnd ?fd d True ?s1)"
    by (simp add: FeedForwardLayer_init_def Let_def split_beta)
  ultimately show ?thesis by simp
qed

lemma TransformerLayer_init_addr:
  assumes "TransformerLayer_init rnd gelu d nh fs s = Inr (l, s')"
  shows "next_addr s \<le> next_addr s'"
proof -
  let ?s1 = "snd (LayerNorm_init d (1 / 10 ^ 5) True s)"
  from assms obtain att s2 where
    att: "MultiHeadAttention_init rnd d nh (1 / 10) ?s1 = Inr (att, s2)"
    by (auto simp add: TransformerLayer_init_def Let_def split_beta split: sum.splits)
  let ?s3 = "snd (LayerNorm_init d (1 / 10 ^ 5) True s2)"
  have s': "s' = snd (FeedForwardLayer_init rnd gelu d None (1 / 10) ?s3)"
    using assms att by (auto simp add: TransformerLayer_init_def Let_def split_beta)
  have "next_addr s \<le> next_addr ?s1" by (rule LayerNorm_init_addr)
  also have "\<dots> \<le> next_addr s2" by (rule MultiHeadAttention_init_addr [OF att])
  also have "\<dots> \<le> next_addr ?s3" by (rule LayerNorm_init_addr)
  also have "\<dots> \<le> next_addr s'" unfolding s' by (rule FeedForwardLayer_init_addr)
  finally show ?thesis .
qed

lemma layers_init_addr:
  "layers_init rnd gelu d nh fs n s = Inr (ls, s') \<Longrightarrow> next_addr s \<le> next_addr s'"
proof (induction n arbitrary: s ls s')
  case 0
  then show ?case by simp
next
  case (Suc n)
  from Suc.prems obtain l s1 ls' where
    l: "TransformerLayer_init rnd gelu d nh fs s = Inr (l, s1)"
    and r: "layers_init rnd gelu d nh fs n s1 = Inr (ls', s')"
    by (auto split: sum.splits)
  from TransformerLayer_init_addr [OF l] Suc.IH [OF r] show ?case by simp
qed

text \<open>Without \<open>weight_tie\<close> the head keeps a parameter of its own, at another address.\<close>

lemma MiniGPT_construct_untied:
  assumes c: "MiniGPT_construct rnd gelu cfg s = Inr (m, s')" and nt: "\<not> weight_tie cfg"
  shows "weight (head m) \<noteq> emb_weight (vocab_embedding m)"
proof -
  let ?s1 = "snd (Embedding_init rnd (vocab_size cfg) (embed_dim cfg) s)"
  let ?s2 = "snd (Embedding_init rnd (context_length cfg) (embed_dim cfg) ?s1)"
  from c obtain ls s3 where
    ls: "layers_init rnd gelu (embed_dim cfg) (cfg_num_heads cfg) (feedforward_size cfg) (num_layers cfg) ?s2 = Inr (ls, s3)"
    by (auto simp add: MiniGPT_construct_def Let_def split_beta split: sum.splits)
  let ?s4 = "snd (LayerNorm_init (embed_dim cfg) (1 / 10 ^ 5) True s3)"
  have hd: "weight (head m) = next_addr ?s4"
    using c ls nt by (auto simp add: MiniGPT_construct_def Let_def split_beta Linear_init_addr)
  have ve: "emb_weight (vocab_embedding m) = next_addr s"
    using c ls by (auto simp add: MiniGPT_construct_def Let_def split_beta Embedding_init_addr)
  have "next_addr s < next_addr ?s1" by (rule Embedding_init_addr)
  also have "\<dots> < next_addr ?s2" by (rule Embedding_init_addr)
  also have "\<dots> \<le> next_addr s3" by (rule layers_init_addr [OF ls])
  also have "\<dots> \<le> next_addr ?s4" by (rule LayerNorm_init_addr)
  finally show ?thesis using hd ve by simp
qed

text \<open>
  Claim C7. With \<open>config.weight_tie\<close>, \<open>MiniGPT.__init__\<close> returns (it raises only for layers
  without heads), and the head's weight and the vocabulary embedding's weight are one
  parameter at one address, before the \<open>_init_weights\<close> pass and after it: whatever is
  written in place through the one is read through the other.
\<close>

theorem weight_tie_shared_storage:
  assumes "weight_tie cfg" and "0 < cfg_num_heads cfg \<or> num_layers cfg = 0"
  shows "\<exists>m s1 s2.
           MiniGPT_construct rnd gelu cfg s = Inr (m, s1) \<and>
           apply_init_weights rnd (MiniGPT_modules m) s1 = Inr s2 \<and>
           MiniGPT_init rnd gelu cfg s = Inr (m, s2) \<and>
           weight (head m) = emb_weight (vocab_embedding m) \<and>
           heap s1 (weight (head m)) = heap s1 (emb_weight (vocab_embedding m)) \<and>
           heap s2 (weight (head m)) = heap s2 (emb_weight (vocab_embedding m)) \<and>
           (\<forall>v. ((heap s2)(emb_weight (vocab_embedding m) := v)) (weight (head m)) = v)"
proof -
  from MiniGPT_construct_returns [OF assms(2), of rnd gelu s]
  obtain m s1 where c: "MiniGPT_construct rnd gelu cfg s = Inr (m, s1)" by auto
  obtain s2 where a: "apply_init_weights rnd (MiniGPT_modules m) s1 = Inr s2"
    using apply_init_weights_returns by blast
  have i: "MiniGPT_init rnd gelu cfg s = Inr (m, s2)"
    by (simp add: MiniGPT_init_def c a)
  have t: "weight (head m) = emb_weight (vocab_embedding m)"
    by (rule MiniGPT_construct_tied [OF c assms(1)])
  show ?thesis using c a i t by simp
qed

theorem weight_tie_shared_storage_witness:
  "weight (head (fst (projr ex_gpt))) = emb_weight (vocab_embedding (fst (projr ex_gpt))) \<and>
   heap (snd (projr ex_gpt)) (weight (head (fst (projr ex_gpt))))
     = heap (snd (projr ex_gpt)) (emb_weight (vocab_embedding (fst (projr ex_gpt))))"
  using weight_tie_shared_storage [of ex_cfg ex_rnd ex_act init_state]
  by (auto simp add: ex_gpt_def ex_cfg_def)

section \<open>Generation\<close>

lemma in_range_pos: "in_range V t \<Longrightarrow> 0 < V"
  by (auto simp add: in_range_def)

lemma generate_step_ok:
  assumes ok: "gpt_ok cfg m" and ne: "st \<noteq> []"
    and valid: "list_all (in_range (vocab_size cfg)) st"
    and smp: "\<forall>i p. p \<noteq> [] \<longrightarrow> smp i p < length p"
    and ls: "num_layers cfg = 0 \<or> cfg_num_heads cfg dvd embed_dim cfg"
    and cl: "context_length cfg = 1 \<or> min 10 (length st) \<le> context_length cfg"
  shows "\<exists>y. MiniGPT_forward h m (Tok1 (drop (length st - 10) st)) = Inr y \<and>
             shape3 y = (1, min 10 (length st), vocab_size cfg) \<and>
             generate_step h m smp i st
               = Inr [int (smp i (map (\<lambda>j. at3 (softmax y) 0 (tN y - 1) j) [0..<vocab_size cfg]))] \<and>
             smp i (map (\<lambda>j. at3 (softmax y) 0 (tN y - 1) j) [0..<vocab_size cfg]) < vocab_size cfg"
proof -
  let ?c = "drop (length st - 10) st"
  let ?W = "min 10 (length st)"
  have len: "length ?c = ?W" by auto
  have Wpos: "0 < ?W" using ne by simp
  have cvalid: "list_all (in_range (vocab_size cfg)) ?c"
    using valid by (auto simp add: list_all_iff dest: in_set_dropD)
  have Vpos: "0 < vocab_size cfg"
    using ne valid by (cases st) (auto dest: in_range_pos)
  have ux: "unsqueeze_if_1d (Tok1 ?c) = \<lparr>kB = 1, kS = ?W, toks = [?c]\<rparr>"
    using len by (simp add: unsqueeze_if_1d_def unsqueeze0_tokens_def)
  have tv: "list_all (list_all (in_range (vocab_size cfg))) (toks (unsqueeze_if_1d (Tok1 ?c)))"
    using cvalid by (simp add: ux)
  note e = Embedding_forward_eq [OF ok tv, of h]
  have "\<exists>r. MiniGPT_embed h m (Tok1 ?c) = Inr r \<and> out_shape 1 ?W (embed_dim cfg) r"
  proof (cases "?W \<le> context_length cfg")
    case True
    then have w: "kS (unsqueeze_if_1d (Tok1 ?c)) \<le> context_length cfg" by (simp add: ux)
    have "MiniGPT_embed h m (Tok1 ?c) =
        Inr (add_position_rows h m (tabulate3 (kB (unsqueeze_if_1d (Tok1 ?c)))
               (kS (unsqueeze_if_1d (Tok1 ?c))) (embed_dim cfg)
               (\<lambda>b i k. h (emb_weight (vocab_embedding m)) ! nat (toks (unsqueeze_if_1d (Tok1 ?c)) ! b ! i) ! k)))"
      unfolding MiniGPT_embed_within [OF ok w, of h] e by simp
    then show ?thesis by (simp add: add_position_rows_def out_shape_def ux)
  next
    case False
    then have c1: "context_length cfg = 1" using cl by auto
    have l: "context_length cfg < tN (tabulate3 (kB (unsqueeze_if_1d (Tok1 ?c)))
               (kS (unsqueeze_if_1d (Tok1 ?c))) (embed_dim cfg)
               (\<lambda>b i k. h (emb_weight (vocab_embedding m)) ! nat (toks (unsqueeze_if_1d (Tok1 ?c)) ! b ! i) ! k))"
      using False by (auto simp add: ux)
    from MiniGPT_embed_beyond(2) [OF ok e l] c1
    show ?thesis by (simp add: out_shape_def ux)
  qed
  then obtain r where r: "MiniGPT_embed h m (Tok1 ?c) = Inr r" "out_shape 1 ?W (embed_dim cfg) r"
    by auto
  have ls': "num_layers cfg = 0 \<or> (cfg_num_heads cfg dvd embed_dim cfg \<and> ?W \<le> 512)"
    using ls by auto
  from MiniGPT_forward_returns [OF ok r ls']
  obtain y where y: "MiniGPT_forward h m (Tok1 ?c) = Inr y" "out_shape 1 ?W (vocab_size cfg) y"
    by auto
  have ys: "tB y = 1" "tN y = ?W" "tD y = vocab_size cfg" using y(2) by (simp_all add: out_shape_def)
  have sh: "shape3 y = (1, ?W, vocab_size cfg)" by (simp add: shape3_def ys)
  let ?p = "tabulate2 1 (vocab_size cfg) (\<lambda>b k. at3 (softmax y) b (tN y - 1) k)"
  let ?row = "map (\<lambda>j. at3 (softmax y) 0 (tN y - 1) j) [0..<vocab_size cfg]"
  have sl: "select_last (softmax y) = Inr ?p"
    using Wpos ys by (simp add: select_last_def softmax_def)
  have row: "mvals ?p ! 0 = ?row" by (simp add: tabulate2_def)
  have rne: "?row \<noteq> []" "length ?row = vocab_size cfg" using Vpos by simp_all
  have mn: "multinomial smp i ?p = Inr [int (smp i ?row)]"
    using Vpos unfolding multinomial_def row [symmetric] by (simp add: tabulate2_def)
  have lt: "smp i ?row < vocab_size cfg" using smp rne by metis
  have gs: "generate_step h m smp i st = Inr [int (smp i ?row)]"
    unfolding generate_step_def Let_def y(1) thenR_simps sl mn ..
  from y(1) sh gs lt show ?thesis by blast
qed

lemma generate_loop_ok:
  assumes ok: "gpt_ok cfg m"
    and smp: "\<forall>i p. p \<noteq> [] \<longrightarrow> smp i p < length p"
    and ls: "num_layers cfg = 0 \<or> cfg_num_heads cfg dvd embed_dim cfg"
  shows "st \<noteq> [] \<Longrightarrow> list_all (in_range (vocab_size cfg)) st \<Longrightarrow>
         context_length cfg = 1 \<or> min 10 (length st + n - 1) \<le> context_length cfg \<Longrightarrow>
         \<exists>ys. generate_loop h m smp i n st = Inr ys \<and> length ys = length st + n \<and>
              take (length st) ys = st \<and> list_all (in_range (vocab_size cfg)) ys \<and>
              (\<forall>k<n. \<exists>y.
                 MiniGPT_forward h m
                   (Tok1 (drop (length st + k - 10) (take (length st + k) ys))) = Inr y \<and>
                 shape3 y = (1, min 10 (length st + k), vocab_size cfg) \<and>
                 ys ! (length st + k)
                   = int (smp (i + k) (map (\<lambda>j. at3 (softmax y) 0 (tN y - 1) j) [0..<vocab_size cfg])))"
proof (induction n arbitrary: i st)
  case 0
  then show ?case by simp
next
  case (Suc n)
  have cl: "context_length cfg = 1 \<or> min 10 (length st) \<le> context_length cfg"
    using Suc.prems(3) by auto
  from generate_step_ok [OF ok Suc.prems(1,2) smp ls cl, of h i]
  obtain y0 where y0: "MiniGPT_forward h m (Tok1 (drop (length st - 10) st)) = Inr y0"
      "shape3 y0 = (1, min 10 (length st), vocab_size cfg)"
      "generate_step h m smp i st
         = Inr [int (smp i (map (\<lambda>j. at3 (softmax y0) 0 (tN y0 - 1) j) [0..<vocab_size cfg]))]"
      "smp i (map (\<lambda>j. at3 (softmax y0) 0 (tN y0 - 1) j) [0..<vocab_size cfg]) < vocab_size cfg"
    by blast
  define t where "t = int (smp i (map (\<lambda>j. at3 (softmax y0) 0 (tN y0 - 1) j) [0..<vocab_size cfg]))"
  have t: "generate_step h m smp i st = Inr [t]" "in_range (vocab_size cfg) t"
    using y0(3,4) by (simp_all add: t_def in_range_def)
  have ne': "st @ [t] \<noteq> []" by simp
  have valid': "list_all (in_range (vocab_size cfg)) (st @ [t])"
    using Suc.prems(2) t(2) by simp
  have cl': "context_length cfg = 1 \<or> min 10 (length (st @ [t]) + n - 1) \<le> context_length cfg"
    using Suc.prems(3) by simp
  from Suc.IH [OF ne' valid' cl', of "Suc i"]
  obtain ys where ys: "generate_loop h m smp (Suc i) n (st @ [t]) = Inr ys"
      "length ys = length (st @ [t]) + n" "take (length (st @ [t])) ys = st @ [t]"
      "list_all (in_range (vocab_size cfg)) ys"
      "\<forall>k<n. \<exists>y.
                 MiniGPT_forward h m
                   (Tok1 (drop (length (st @ [t]) + k - 10) (take (length (st @ [t]) + k) ys))) = Inr y \<and>
                 shape3 y = (1, min 10 (length (st @ [t]) + k), vocab_size cfg) \<and>
                 ys ! (length (st @ [t]) + k)
                   = int (smp (Suc i + k) (map (\<lambda>j. at3 (softmax y) 0 (tN y - 1) j) [0..<vocab_size cfg]))"
    by blast
  have pre: "take (length st) ys = st"
  proof -
    have "take (length st) ys = take (length st) (take (length (st @ [t])) ys)"
      by (simp add: min_def)
    also have "\<dots> = st" unfolding ys(3) by simp
    finally show ?thesis .
  qed
  have nth: "ys ! length st = t"
  proof -
    have "ys ! length st = take (length (st @ [t])) ys ! length st" by simp
    also have "\<dots> = t" unfolding ys(3) by simp
    finally show ?thesis .
  qed
  have steps: "\<exists>y. MiniGPT_forward h m
                   (Tok1 (drop (length st + k - 10) (take (length st + k) ys))) = Inr y \<and>
                 shape3 y = (1, min 10 (length st + k), vocab_size cfg) \<and>
                 ys ! (length st + k)
                   = int (smp (i + k) (map (\<lambda>j. at3 (softmax y) 0 (tN y - 1) j) [0..<vocab_size cfg]))"
    if "k < Suc n" for k
  proof (cases k)
    case 0
    have "MiniGPT_forward h m (Tok1 (drop (length st + k - 10) (take (length st + k) ys))) = Inr y0"
      using 0 pre y0(1) by simp
    moreover have "shape3 y0 = (1, min 10 (length st + k), vocab_size cfg)"
      using 0 y0(2) by simp
    moreover have "ys ! (length st + k)
        = int (smp (i + k) (map (\<lambda>j. at3 (softmax y0) 0 (tN y0 - 1) j) [0..<vocab_size cfg]))"
      using 0 nth by (simp add: t_def)
    ultimately show ?thesis by blast
  next
    case (Suc k')
    then have "k' < n" using that by simp
    with ys(5) obtain y where
      "MiniGPT_forward h m
         (Tok1 (drop (length (st @ [t]) + k' - 10) (take (length (st @ [t]) + k') ys))) = Inr y"
      "shape3 y = (1, min 10 (length (st @ [t]) + k'), vocab_size cfg)"
      "ys ! (length (st @ [t]) + k')
         = int (smp (Suc i + k') (map (\<lambda>j. at3 (softmax y) 0 (tN y - 1) j) [0..<vocab_size cfg]))"
      by blast
    then have "MiniGPT_forward h m
                   (Tok1 (drop (length st + k - 10) (take (length st + k) ys))) = Inr y \<and>
                 shape3 y = (1, min 10 (length st + k), vocab_size cfg) \<and>
                 ys ! (length st + k)
                   = int (smp (i + k) (map (\<lambda>j. at3 (softmax y) 0 (tN y - 1) j) [0..<vocab_size cfg]))"
      using Suc by simp
    then show ?thesis by blast
  qed
  have g: "generate_loop h m smp i (Suc n) st = Inr ys" by (simp add: t(1) ys(1))
  have l: "length ys = length st + Suc n" using ys(2) by simp
  from g l pre ys(4) steps show ?case by blast
qed

lemma generate_step_empty:
  assumes ok: "gpt_ok cfg m"
    and ls: "num_layers cfg = 0 \<or> cfg_num_heads cfg dvd embed_dim cfg"
  shows "generate_step h m smp i [] = Inl IndexError"
proof -
  have ux: "unsqueeze_if_1d (Tok1 []) = \<lparr>kB = 1, kS = 0, toks = [[]]\<rparr>"
    by (simp add: unsqueeze_if_1d_def unsqueeze0_tokens_def)
  have tv: "list_all (list_all (in_range (vocab_size cfg))) (toks (unsqueeze_if_1d (Tok1 [])))"
    by (simp add: ux)
  note e = Embedding_forward_eq [OF ok tv, of h]
  have w: "kS (unsqueeze_if_1d (Tok1 [])) \<le> context_length cfg" by (simp add: ux)
  have "MiniGPT_embed h m (Tok1 []) =
        Inr (add_position_rows h m (tabulate3 (kB (unsqueeze_if_1d (Tok1 [])))
               (kS (unsqueeze_if_1d (Tok1 []))) (embed_dim cfg)
               (\<lambda>b i k. h (emb_weight (vocab_embedding m)) ! nat (toks (unsqueeze_if_1d (Tok1 [])) ! b ! i) ! k)))"
    unfolding MiniGPT_embed_within [OF ok w, of h] e by simp
  then obtain r where r: "MiniGPT_embed h m (Tok1 []) = Inr r" "out_shape 1 0 (embed_dim cfg) r"
    by (simp add: add_position_rows_def out_shape_def ux)
  have ls': "num_layers cfg = 0 \<or> (cfg_num_heads cfg dvd embed_dim cfg \<and> (0::nat) \<le> 512)"
    using ls by auto
  from MiniGPT_forward_returns [OF ok r ls']
  obtain y where y: "MiniGPT_forward h m (Tok1 []) = Inr y" "out_shape 1 0 (vocab_size cfg) y"
    by auto
  have "select_last (softmax y) = Inl IndexError"
    using y(2) by (simp add: select_last_def softmax_def out_shape_def)
  then show ?thesis by (simp add: generate_step_def y(1))
qed

text \<open>
  Claim C8, as amended. With \<open>max_new_tokens = 0\<close>, \<open>generate\<close> returns the context. For a
  non-empty 1-D context of token ids of the vocabulary, on a model whose number of heads
  divides \<open>embed_dim\<close> and whose \<open>context_length\<close> holds the windows (the last 10 tokens, or
  \<open>context_length = 1\<close>), \<open>generate\<close> returns a 1-D tensor of length
  \<open>len(context) + max_new_tokens\<close> that starts with the context. The token that iteration
  \<open>k\<close> appends is the index that \<open>torch.multinomial\<close> draws from the softmax, at the last
  position, of the logits that \<open>forward\<close> returns for the last 10 tokens of the sequence so
  far (all of them while there are fewer than 10).
\<close>

theorem generate_appends_sampled_tokens:
  assumes init: "MiniGPT_init rnd gelu cfg s = Inr (m, s')"
    and smp: "\<forall>i p. p \<noteq> [] \<longrightarrow> smp i p < length p"
    and c: "n = 0 \<or>
            (context \<noteq> [] \<and> list_all (in_range (vocab_size cfg)) context \<and>
             (num_layers cfg = 0 \<or> cfg_num_heads cfg dvd embed_dim cfg) \<and>
             (context_length cfg = 1 \<or> min 10 (length context + n - 1) \<le> context_length cfg))"
  shows "\<exists>ys. generate h m smp context n = Inr ys \<and>
              length ys = length context + n \<and> take (length context) ys = context \<and>
              (\<forall>k<n. \<exists>y.
                 MiniGPT_forward h m
                   (Tok1 (drop (length context + k - 10) (take (length context + k) ys))) = Inr y \<and>
                 shape3 y = (1, min 10 (length context + k), vocab_size cfg) \<and>
                 ys ! (length context + k)
                   = int (smp k (map (\<lambda>j. at3 (softmax y) 0 (tN y - 1) j) [0..<vocab_size cfg])))"
proof (cases "n = 0")
  case True
  then show ?thesis by (simp add: generate_def)
next
  case False
  then have ne: "context \<noteq> []" and valid: "list_all (in_range (vocab_size cfg)) context"
    and ls: "num_layers cfg = 0 \<or> cfg_num_heads cfg dvd embed_dim cfg"
    and cl: "context_length cfg = 1 \<or> min 10 (length context + n - 1) \<le> context_length cfg"
    using c by auto
  note ok = MiniGPT_init_ok [OF init]
  from generate_loop_ok [OF ok smp ls ne valid cl, of h 0]
  obtain ys where ys: "generate_loop h m smp 0 n context = Inr ys"
      "length ys = length context + n" "take (length context) ys = context"
      "\<forall>k<n. \<exists>y.
                 MiniGPT_forward h m
                   (Tok1 (drop (length context + k - 10) (take (length context + k) ys))) = Inr y \<and>
                 shape3 y = (1, min 10 (length context + k), vocab_size cfg) \<and>
                 ys ! (length context + k)
                   = int (smp (0 + k) (map (\<lambda>j. at3 (softmax y) 0 (tN y - 1) j) [0..<vocab_size cfg]))"
    by blast
  have g: "generate h m smp context n = Inr ys" by (simp add: generate_def ys(1))
  from ys(4) have st: "\<forall>k<n. \<exists>y.
                 MiniGPT_forward h m
                   (Tok1 (drop (length context + k - 10) (take (length context + k) ys))) = Inr y \<and>
                 shape3 y = (1, min 10 (length context + k), vocab_size cfg) \<and>
                 ys ! (length context + k)
                   = int (smp k (map (\<lambda>j. at3 (softmax y) 0 (tN y - 1) j) [0..<vocab_size cfg]))"
    by simp
  from g ys(2,3) st show ?thesis by blast
qed

lemma ex_gpt10_init:
  "MiniGPT_init ex_rnd ex_act (ex_cfg\<lparr>vocab_size := 2, context_length := 10\<rparr>) init_state
     = Inr (fst (projr ex_gpt10), snd (projr ex_gpt10))"
  using MiniGPT_init_returns [of "ex_cfg\<lparr>vocab_size := 2, context_length := 10\<rparr>" ex_rnd ex_act init_state]
  unfolding ex_gpt10_def by (auto simp add: ex_cfg_def)

theorem generate_appends_sampled_tokens_witness:
  "\<exists>ys. generate (heap (snd (projr ex_gpt10))) (fst (projr ex_gpt10)) ex_smp_last
           [0, 1, 0, 1, 0, 1, 0, 1, 0, 1, 0] 2 = Inr ys \<and>
         length ys = 13 \<and> take 11 ys = [0, 1, 0, 1, 0, 1, 0, 1, 0, 1, 0] \<and>
         ys ! 11 = 1 \<and> ys ! 12 = 1 \<and>
         returns (MiniGPT_forward (heap (snd (projr ex_gpt10))) (fst (projr ex_gpt10))
                    (Tok1 (drop 2 (take 12 ys))))"
proof -
  let ?cfg = "ex_cfg\<lparr>vocab_size := 2, context_length := 10\<rparr>"
  let ?ctx = "[0, 1, 0, 1, 0, 1, 0, 1, 0, 1, 0] :: int list"
  let ?h = "heap (snd (projr ex_gpt10))" and ?m = "fst (projr ex_gpt10)"
  have smp: "\<forall>i p. p \<noteq> [] \<longrightarrow> ex_smp_last i p < length p"
    by (simp add: ex_smp_last_def)
  have c: "(2::nat) = 0 \<or>
            (?ctx \<noteq> [] \<and> list_all (in_range (vocab_size ?cfg)) ?ctx \<and>
             (num_layers ?cfg = 0 \<or> cfg_num_heads ?cfg dvd embed_dim ?cfg) \<and>
             (context_length ?cfg = 1 \<or> min 10 (length ?ctx + 2 - 1) \<le> context_length ?cfg))"
    by (simp add: ex_cfg_def in_range_def)
  from generate_appends_sampled_tokens [OF ex_gpt10_init smp c, of ?h]
  obtain ys where ys: "generate ?h ?m ex_smp_last ?ctx 2 = Inr ys"
    "length ys = length ?ctx + 2" "take (length ?ctx) ys = ?ctx"
    "\<forall>k<2. \<exists>y.
        MiniGPT_forward ?h ?m (Tok1 (drop (length ?ctx + k - 10) (take (length ?ctx + k) ys))) = Inr y \<and>
        shape3 y = (1, min 10 (length ?ctx + k), vocab_size ?cfg) \<and>
        ys ! (length ?ctx + k)
          = int (ex_smp_last k (map (\<lambda>j. at3 (softmax y) 0 (tN y - 1) j) [0..<vocab_size ?cfg]))"
    by blast
  have v: "vocab_size ?cfg = 2" by (simp add: ex_cfg_def)
  have draw: "int (ex_smp_last k (map f [0..<vocab_size ?cfg])) = 1" for k and f :: "nat \<Rightarrow> real"
    by (simp add: ex_smp_last_def v)
  have k0: "(0::nat) < 2" and k1: "(1::nat) < 2" by simp_all
  from ys(4) k0 have a: "ys ! (length ?ctx + 0) = 1" unfolding draw by blast
  from ys(4) k1 obtain y where y:
    "MiniGPT_forward ?h ?m (Tok1 (drop (length ?ctx + 1 - 10) (take (length ?ctx + 1) ys))) = Inr y"
    "ys ! (length ?ctx + 1) = 1" unfolding draw by blast
  have len: "length ?ctx = 11" by simp
  have r: "returns (MiniGPT_forward ?h ?m (Tok1 (drop 2 (take 12 ys))))"
    using y(1) unfolding len by simp
  have l: "length ys = 13" using ys(2) unfolding len by simp
  have tk: "take 11 ys = ?ctx" using ys(3) unfolding len by simp
  have a': "ys ! 11 = 1" using a unfolding len by simp
  have b': "ys ! 12 = 1" using y(2) unfolding len by simp
  from ys(1) l tk a' b' r show ?thesis by blast
qed

text \<open>
  Claim C8 as stated fails for the empty context: the model returns logits for no position,
  and selecting the last position raises \<open>IndexError\<close>.
\<close>

theorem generate_empty_context_counterexample:
  "generate (heap (snd (projr ex_gpt))) (fst (projr ex_gpt)) ex_smp [] 1 = Inl IndexError"
proof -
  note ok = MiniGPT_init_ok [OF ex_gpt_init]
  have ls: "num_layers ex_cfg = 0 \<or> cfg_num_heads ex_cfg dvd embed_dim ex_cfg"
    by (simp add: ex_cfg_def)
  show ?thesis
    by (simp add: generate_def generate_step_empty [OF ok ls])
qed

end
